theory Spec2Isabelle
  imports Main
begin

section \<open>Data model (app/models.py, app/state.py)\<close>

text \<open>
  Python exceptions are values. Only the exception classes that the modelled code can
  raise are listed; the string carried by a Confluence error is its message.
\<close>

datatype error =
    TypeError
  | IntegrityError
  | AttributeError
  | RequestException string
  | ConfluenceRetryableError string
  | ConfluenceError string
  | OtherException string

text \<open>
  A Python \<open>datetime\<close> is either naive (no \<open>tzinfo\<close>) or aware. \<open>Naive w\<close> carries
  the wall clock reading in microseconds; \<open>Aware t off\<close> carries the UTC instant and the
  UTC offset, both in microseconds, so that its wall clock reads \<open>t + off\<close>.
  Ordering a naive against an aware value raises \<open>TypeError\<close> in Python; two naive
  values are ordered by their wall clock, two aware values by their instant.
\<close>

datatype datetime = Naive int | Aware int int

fun dt_gt :: "datetime \<Rightarrow> datetime \<Rightarrow> error + bool" where
  "dt_gt (Naive a) (Naive b) = Inr (a > b)"
| "dt_gt (Aware a oa) (Aware b ob) = Inr (a > b)"
| "dt_gt (Naive a) (Aware b ob) = Inl TypeError"
| "dt_gt (Aware a oa) (Naive b) = Inl TypeError"

fun wall_clock :: "datetime \<Rightarrow> int" where
  "wall_clock (Naive w) = w"
| "wall_clock (Aware t off) = t + off"

record file_record =
  fr_path :: string
  fr_sha256 :: string
  fr_last_synced_at :: "datetime option"

record page_record =
  pr_page_id :: string
  pr_title :: string
  pr_parent_page_id :: "string option"
  pr_last_seen_version :: "int option"
  pr_last_seen_remote_updated_at :: "datetime option"

record binding_record =
  br_file_path :: string
  br_page_id :: string

record remote_page =
  rp_page_id :: string
  rp_title :: string
  rp_parent_page_id :: "string option"
  rp_version :: int
  rp_last_updated :: "datetime option"

section \<open>Conflict detection (app/conflicts.py)\<close>

text \<open>
  \<open>has_conflict\<close>: the three records are dataclass or model instances, so \<open>not x\<close> is
  true only for \<open>None\<close>. \<open>remote_page.version and page_record.last_seen_version\<close> is
  Python truthiness on integers: \<open>0\<close> and \<open>None\<close> are false. A \<open>datetime\<close> is always
  true, so the timestamp guard tests for \<open>None\<close> only, and then compares.
\<close>

fun has_conflict ::
  "file_record option \<Rightarrow> page_record option \<Rightarrow> remote_page option \<Rightarrow> string \<Rightarrow> error + bool"
where
  "has_conflict (Some file_record) (Some page_record) (Some remote_page) current_sha =
     (if current_sha = fr_sha256 file_record then Inr False
      else if (case pr_last_seen_version page_record of
                 None \<Rightarrow> False
               | Some last_seen \<Rightarrow>
                   rp_version remote_page \<noteq> 0 \<and> last_seen \<noteq> 0 \<and> rp_version remote_page > last_seen)
      then Inr True
      else (case (rp_last_updated remote_page, pr_last_seen_remote_updated_at page_record) of
              (Some remote_at, Some seen_at) \<Rightarrow> dt_gt remote_at seen_at
            | _ \<Rightarrow> Inr False))"
| "has_conflict _ _ _ _ = Inr False"

text \<open>
  The condition of the specification, word for word: the remote version is strictly
  greater than the last seen version, or the remote timestamp is strictly greater than
  the last seen remote timestamp (timestamps read as instants).
\<close>

fun instant :: "datetime \<Rightarrow> int" where
  "instant (Naive a) = a"
| "instant (Aware a off) = a"

definition spec_conflict_condition :: "page_record \<Rightarrow> remote_page \<Rightarrow> bool" where
  "spec_conflict_condition page_record remote_page =
     ((case pr_last_seen_version page_record of
         None \<Rightarrow> False
       | Some last_seen \<Rightarrow> rp_version remote_page > last_seen)
      \<or> (case (rp_last_updated remote_page, pr_last_seen_remote_updated_at page_record) of
            (Some remote_at, Some seen_at) \<Rightarrow> instant remote_at > instant seen_at
          | _ \<Rightarrow> False))"

section \<open>State store (app/state.py)\<close>

text \<open>
  The SQLite database has three tables. \<open>files\<close> and \<open>pages\<close> have a primary key
  (\<open>path\<close>, \<open>page_id\<close>) and are written only by upserts on that key, so each is a map
  from its key to the record that \<open>get_file\<close> and \<open>get_page\<close> build from the row.
  \<open>bindings\<close> is the list of its rows in insertion order, with \<open>file_path\<close> as primary
  key and \<open>page_id\<close> declared \<open>UNIQUE NOT NULL\<close>. The connection never enables
  \<open>PRAGMA foreign_keys\<close>, so SQLite does not enforce the two \<open>FOREIGN KEY\<close> clauses.
  Failures of the storage layer itself (disk, locking) are outside the model.

  Timestamps are stored as text with \<open>strftime(ISO_FORMAT)\<close>, which prints the wall
  clock followed by a literal \<open>Z\<close>, and read back with \<open>strptime\<close>, which yields a naive
  \<open>datetime\<close>: a stored timestamp is read back as \<open>Naive\<close> of the wall clock.
\<close>

record state_store =
  files :: "string \<rightharpoonup> file_record"
  pages :: "string \<rightharpoonup> page_record"
  bindings :: "binding_record list"

definition stored_datetime :: "datetime \<Rightarrow> datetime" where
  "stored_datetime d = Naive (wall_clock d)"

definition upsert_file :: "state_store \<Rightarrow> string \<Rightarrow> string \<Rightarrow> datetime \<Rightarrow> state_store" where
  "upsert_file s path sha synced_at =
     s\<lparr>files := (files s)(path \<mapsto>
          \<lparr>fr_path = path, fr_sha256 = sha,
           fr_last_synced_at = Some (stored_datetime synced_at)\<rparr>)\<rparr>"

definition get_file :: "state_store \<Rightarrow> string \<Rightarrow> file_record option" where
  "get_file s path = files s path"

definition upsert_page ::
  "state_store \<Rightarrow> string \<Rightarrow> string \<Rightarrow> string option \<Rightarrow> int option \<Rightarrow> datetime option \<Rightarrow> state_store"
where
  "upsert_page s page_id title parent_page_id version last_updated =
     s\<lparr>pages := (pages s)(page_id \<mapsto>
          \<lparr>pr_page_id = page_id, pr_title = title, pr_parent_page_id = parent_page_id,
           pr_last_seen_version = version,
           pr_last_seen_remote_updated_at = map_option stored_datetime last_updated\<rparr>)\<rparr>"

definition get_page :: "state_store \<Rightarrow> string \<Rightarrow> page_record option" where
  "get_page s page_id = pages s page_id"

text \<open>
  \<open>set_binding\<close> runs
  \<open>INSERT INTO bindings(file_path, page_id) VALUES (?, ?)
   ON CONFLICT(file_path) DO UPDATE SET page_id = excluded.page_id\<close>.
  The upsert clause names \<open>file_path\<close> only. When a row with that path exists, it is
  updated in place; otherwise the row is inserted. In both cases a different row that
  already holds the page id violates the \<open>UNIQUE\<close> constraint on \<open>page_id\<close>, for which
  the statement has no clause: SQLite aborts it, \<open>sqlite3\<close> raises \<open>IntegrityError\<close>, and
  the connection's context manager rolls the transaction back, leaving the tables as
  they were.
\<close>

definition set_binding ::
  "state_store \<Rightarrow> string \<Rightarrow> string \<Rightarrow> (error + unit) \<times> state_store"
where
  "set_binding s file_path page_id =
     (if list_ex (\<lambda>r. br_file_path r \<noteq> file_path \<and> br_page_id r = page_id) (bindings s)
      then (Inl IntegrityError, s)
      else if list_ex (\<lambda>r. br_file_path r = file_path) (bindings s)
      then (Inr (), s\<lparr>bindings :=
              map (\<lambda>r. if br_file_path r = file_path then r\<lparr>br_page_id := page_id\<rparr> else r)
                  (bindings s)\<rparr>)
      else (Inr (), s\<lparr>bindings :=
              bindings s @ [\<lparr>br_file_path = file_path, br_page_id = page_id\<rparr>]\<rparr>))"

definition get_binding_for_path :: "state_store \<Rightarrow> string \<Rightarrow> binding_record option" where
  "get_binding_for_path s file_path = find (\<lambda>r. br_file_path r = file_path) (bindings s)"

definition get_binding_for_page :: "state_store \<Rightarrow> string \<Rightarrow> binding_record option" where
  "get_binding_for_page s page_id = find (\<lambda>r. br_page_id r = page_id) (bindings s)"

definition remove_binding :: "state_store \<Rightarrow> string \<Rightarrow> state_store" where
  "remove_binding s file_path = s\<lparr>bindings := filter (\<lambda>r. br_file_path r \<noteq> file_path) (bindings s)\<rparr>"

text \<open>
  The two uniqueness constraints of the \<open>bindings\<close> table: no path twice, no page id
  twice.
\<close>

definition bindings_bijective :: "state_store \<Rightarrow> bool" where
  "bindings_bijective s =
     (distinct (map br_file_path (bindings s)) \<and> distinct (map br_page_id (bindings s)))"

text \<open>
  An example database: notes \<open>a.md\<close> and \<open>b.md\<close> and page \<open>100\<close> are recorded, and
  \<open>a.md\<close> is bound to page \<open>100\<close>.
\<close>

definition example_store :: state_store where
  "example_store =
     \<lparr>files = [''a.md'' \<mapsto> \<lparr>fr_path = ''a.md'', fr_sha256 = ''h1'', fr_last_synced_at = Some (Naive 5)\<rparr>,
               ''b.md'' \<mapsto> \<lparr>fr_path = ''b.md'', fr_sha256 = ''h2'', fr_last_synced_at = Some (Naive 5)\<rparr>],
      pages = [''100'' \<mapsto> \<lparr>pr_page_id = ''100'', pr_title = ''A'', pr_parent_page_id = None,
                             pr_last_seen_version = Some 1,
                             pr_last_seen_remote_updated_at = Some (Naive 5)\<rparr>],
      bindings = [\<lparr>br_file_path = ''a.md'', br_page_id = ''100''\<rparr>]\<rparr>"

section \<open>Notes (app/models.py)\<close>

record frontmatter_metadata =
  fm_title :: "string option"
  fm_labels :: "string list"
  fm_parent :: "string option"
  fm_exclude :: bool
  fm_page_id :: "string option"

record vault_note =
  vn_path :: string
  vn_relative_path :: string
  vn_title :: string
  vn_frontmatter :: frontmatter_metadata
  vn_content :: string
  vn_sha256 :: string

section \<open>Strings\<close>

text \<open>
  Python strings are modelled as ASCII strings. \<open>is_space\<close> holds for the ASCII
  characters on which \<open>str.isspace\<close> is true (the ones \<open>str.strip()\<close> removes and the
  regular expression \<open>\s\<close> matches): tab, line feed, vertical tab, form feed, carriage
  return, the four separators 0x1C to 0x1F, and the space. \<open>lower\<close> maps the letters A to
  Z to a to z and leaves every other character as it is.
\<close>

definition is_space :: "char \<Rightarrow> bool" where
  "is_space c = (c \<in> set [CHR 0x09, CHR 0x0A, CHR 0x0B, CHR 0x0C, CHR 0x0D,
                          CHR 0x1C, CHR 0x1D, CHR 0x1E, CHR 0x1F, CHR 0x20])"

definition strip :: "string \<Rightarrow> string" where
  "strip s = rev (dropWhile is_space (rev (dropWhile is_space s)))"

definition lower_char :: "char \<Rightarrow> char" where
  "lower_char c =
     (case map_of (zip ''ABCDEFGHIJKLMNOPQRSTUVWXYZ'' ''abcdefghijklmnopqrstuvwxyz'') c of
        Some l \<Rightarrow> l
      | None \<Rightarrow> c)"

definition lower :: "string \<Rightarrow> string" where
  "lower s = map lower_char s"

text \<open>\<open>re.sub(r"\s+", " ", s)\<close>: every maximal run of white space becomes one space.\<close>

function collapse_spaces :: "string \<Rightarrow> string" where
  "collapse_spaces [] = []"
| "collapse_spaces (c # cs) =
     (if is_space c then CHR '' '' # collapse_spaces (dropWhile is_space cs)
      else c # collapse_spaces cs)"
  by pat_completeness auto
termination
  by (relation "measure length") (auto simp: length_dropWhile_le less_Suc_eq_le)

text \<open>\<open>s.replace(old, new)\<close> for a single character \<open>old\<close>.\<close>

definition replace_char :: "char \<Rightarrow> string \<Rightarrow> string \<Rightarrow> string" where
  "replace_char old new s = concat (map (\<lambda>c. if c = old then new else [c]) s)"

text \<open>\<open>str(n)\<close> for a natural number, in decimal.\<close>

fun str_nat :: "nat \<Rightarrow> string" where
  "str_nat n =
     (if n < 10 then [''0123456789'' ! n]
      else str_nat (n div 10) @ [''0123456789'' ! (n mod 10)])"

declare str_nat.simps [simp del]

section \<open>Link index (app/links.py)\<close>

definition normalize_title :: "string \<Rightarrow> string" where
  "normalize_title title = lower (collapse_spaces (strip title))"

text \<open>
  \<open>LinkIndex.__init__\<close> fills two dictionaries in one loop over the notes; an
  assignment to a key that is already present replaces its value.
\<close>

record link_index =
  li_vault_root :: string
  li_by_title :: "string \<rightharpoonup> vault_note"
  li_by_relative_path :: "string \<rightharpoonup> vault_note"

fun index_notes :: "link_index \<Rightarrow> vault_note list \<Rightarrow> link_index" where
  "index_notes index [] = index"
| "index_notes index (note # notes) =
     index_notes
       (index\<lparr>li_by_title := (li_by_title index)(normalize_title (vn_title note) \<mapsto> note),
              li_by_relative_path := (li_by_relative_path index)(vn_relative_path note \<mapsto> note)\<rparr>)
       notes"

definition LinkIndex :: "string \<Rightarrow> vault_note list \<Rightarrow> link_index" where
  "LinkIndex vault_root notes =
     index_notes \<lparr>li_vault_root = vault_root, li_by_title = Map.empty,
                  li_by_relative_path = Map.empty\<rparr> notes"

definition get_by_title :: "link_index \<Rightarrow> string \<Rightarrow> vault_note option" where
  "get_by_title index title = li_by_title index (normalize_title title)"

definition get_by_relative_path :: "link_index \<Rightarrow> string \<Rightarrow> vault_note option" where
  "get_by_relative_path index relative_path = li_by_relative_path index relative_path"

definition escape_for_url :: "string \<Rightarrow> string" where
  "escape_for_url v = replace_char CHR '' '' ''%20'' v"

text \<open>
  \<open>wikilink_replacer\<close>, the function that \<open>rewrite_links\<close> applies to every match of
  \<open>[[...]]\<close>. Its argument is the text between the brackets (group 2 of the match); the
  result is the replacement text and the title added to \<open>linked_titles\<close>, if any.
  \<open>raw_target.split("|", 1)\<close> cuts at the first bar.
\<close>

definition wikilink_replacer :: "link_index \<Rightarrow> string \<Rightarrow> string \<times> string option" where
  "wikilink_replacer index group2 =
     (let raw_target = strip group2;
          (target, display) =
            (if CHR ''|'' \<in> set raw_target
             then (strip (takeWhile (\<lambda>c. c \<noteq> CHR ''|'') raw_target),
                   strip (tl (dropWhile (\<lambda>c. c \<noteq> CHR ''|'') raw_target)))
             else (raw_target, raw_target))
      in case get_by_title index target of
           Some resolved_note \<Rightarrow>
             (''['' @ display @ ''](wikilink://'' @ escape_for_url (vn_title resolved_note) @ '')'',
              Some (vn_title resolved_note))
         | None \<Rightarrow> (display, None))"

text \<open>Three example notes; the first two have titles that normalize alike.\<close>

definition example_note :: "string \<Rightarrow> string \<Rightarrow> vault_note" where
  "example_note relative_path title =
     \<lparr>vn_path = ''/vault/'' @ relative_path, vn_relative_path = relative_path,
      vn_title = title,
      vn_frontmatter = \<lparr>fm_title = None, fm_labels = [], fm_parent = None,
                        fm_exclude = False, fm_page_id = None\<rparr>,
      vn_content = [], vn_sha256 = ''h''\<rparr>"

definition example_notes :: "vault_note list" where
  "example_notes =
     [example_note ''a/Setup Guide.md'' ''Setup Guide'',
      example_note ''c/setup guide.md'' ''setup   GUIDE '',
      example_note ''b/Other.md'' ''Other'']"

section \<open>HTTP layer of the Confluence client (app/client.py)\<close>

text \<open>
  JSON values, as \<open>json.dumps\<close> takes them and \<open>response.json()\<close> returns them. An
  object is its list of members in document order; a later member of the same name
  replaces an earlier one when Python builds the dictionary.
\<close>

datatype json =
    JNull
  | JBool bool
  | JInt int
  | JStr string
  | JList "json list"
  | JObject "(string \<times> json) list"

definition dict_get :: "(string \<times> json) list \<Rightarrow> string \<Rightarrow> json option" where
  "dict_get members k = map_of (rev members) k"

datatype response_body = JsonBody json | TextBody string

record http_response =
  status_code :: int
  resp_headers :: "(string \<times> string) list"
  resp_body :: response_body

text \<open>
  The arguments of \<open>session.request\<close>. \<open>rq_data\<close> is the value whose \<open>json.dumps\<close>
  text is sent as the body.
\<close>

record http_request =
  rq_method :: string
  rq_url :: string
  rq_params :: "(string \<times> string) list option"
  rq_data :: "json option"
  rq_json :: "json option"
  rq_headers :: "string \<rightharpoonup> string"
  rq_files :: "(string \<times> string) option"
  rq_timeout :: nat

text \<open>
  What one call of \<open>session.request\<close> does: it raises a \<open>requests.RequestException\<close>
  (a connection or transport error), raises some other exception, or returns a response.
\<close>

datatype transport_result =
    TransportError string
  | OtherFailure string
  | Responded http_response

text \<open>
  The client. \<open>session_request\<close> is the network: from its state and a request it gives
  the result of the call and the next state. \<open>py_str\<close> is Python's \<open>str()\<close> on a JSON
  value that is not a string, a built-in taken as a parameter.
\<close>

record 'w confluence_client =
  base_url :: string
  session_headers :: "string \<rightharpoonup> string"
  session_request :: "'w \<Rightarrow> http_request \<Rightarrow> transport_result \<times> 'w"
  py_str :: "json \<Rightarrow> string"

text \<open>
  The state the client runs in: the network, and the log of every call of
  \<open>session.request\<close> with its result, oldest first.
\<close>

record 'w http_env =
  net :: 'w
  exchanges :: "(http_request \<times> transport_result) list"

definition str_int :: "int \<Rightarrow> string" where
  "str_int i = (if i < 0 then ''-'' @ str_nat (nat (- i)) else str_nat (nat i))"

definition format_value :: "(json \<Rightarrow> string) \<Rightarrow> json \<Rightarrow> string" where
  "format_value to_str v = (case v of JStr s \<Rightarrow> s | _ \<Rightarrow> to_str v)"

text \<open>
  The second half of \<open>_send_request\<close>: what it raises or returns once
  \<open>session.request\<close> has returned or raised. A body that is valid JSON but not an
  object has no \<open>get\<close> method, so \<open>payload.get\<close> raises \<open>AttributeError\<close>.
\<close>

definition response_result ::
  "(json \<Rightarrow> string) \<Rightarrow> string \<Rightarrow> transport_result \<Rightarrow> error + http_response"
where
  "response_result to_str url result =
     (case result of
        TransportError msg \<Rightarrow> Inl (ConfluenceRetryableError msg)
      | OtherFailure msg \<Rightarrow> Inl (OtherException msg)
      | Responded response \<Rightarrow>
          if status_code response \<in> {429, 502, 503, 504}
          then Inl (ConfluenceRetryableError (''Rate limit '' @ str_int (status_code response)))
          else if status_code response \<ge> 400
          then (case (case resp_body response of
                        JsonBody j \<Rightarrow> j
                      | TextBody t \<Rightarrow> JObject [(''message'', JStr t)]) of
                  JObject payload \<Rightarrow>
                    Inl (ConfluenceError
                      (''HTTP '' @ str_int (status_code response) @ '' for '' @ url @ '': '' @
                       format_value to_str
                         (case dict_get payload ''message'' of
                            Some m \<Rightarrow> m
                          | None \<Rightarrow> JObject payload)))
                | _ \<Rightarrow> Inl AttributeError)
          else Inr response)"

text \<open>
  \<open>_send_request\<close>: the headers of the session, updated with the headers of the call;
  \<open>Content-Type\<close> is added when a JSON body is given and no header of that name is set.
  One call of \<open>session.request\<close> with a timeout of 30, logged in \<open>exchanges\<close>.
\<close>

definition send_request ::
  "'w confluence_client \<Rightarrow> string \<Rightarrow> string \<Rightarrow> (string \<times> string) list option \<Rightarrow>
   json option \<Rightarrow> json option \<Rightarrow> (string \<rightharpoonup> string) option \<Rightarrow> (string \<times> string) option \<Rightarrow>
   'w http_env \<Rightarrow> (error + http_response) \<times> 'w http_env"
where
  "send_request c method url params data json_body headers file_parts e =
     (let merged0 = (case headers of
                       None \<Rightarrow> session_headers c
                     | Some h \<Rightarrow> session_headers c ++ h);
          merged_headers =
            (if json_body \<noteq> None \<and> merged0 ''Content-Type'' = None
             then merged0(''Content-Type'' \<mapsto> ''application/json'')
             else merged0);
          request = \<lparr>rq_method = method, rq_url = url, rq_params = params, rq_data = data,
                     rq_json = json_body, rq_headers = merged_headers, rq_files = file_parts,
                     rq_timeout = 30\<rparr>;
          (result, net') = session_request c (net e) request
      in (response_result (py_str c) url result,
          e\<lparr>net := net', exchanges := exchanges e @ [(request, result)]\<rparr>))"

text \<open>
  The retry policy built in \<open>__init__\<close> with the tenacity library:
  \<open>Retrying(stop=stop_after_attempt(5), wait=wait_exponential_jitter(initial=1, max=30),
  retry=retry_if_exception_type((ConfluenceRetryableError, requests.RequestException)),
  reraise=True)\<close>. Calling it runs the function; a result is returned; an exception
  that the \<open>retry\<close> predicate rejects propagates at once; an exception it accepts is
  raised again as it is (\<open>reraise=True\<close>) when the attempt number has reached the stop
  limit, and otherwise the call sleeps and the function is run again with the attempt
  number increased by one. The sleep has no effect on the modelled state. With
  \<open>reraise=True\<close> the \<open>except RetryError\<close> clause of \<open>_request\<close> is never entered.
\<close>

definition retry_if_exception_type :: "error \<Rightarrow> bool" where
  "retry_if_exception_type exc =
     (case exc of
        ConfluenceRetryableError msg \<Rightarrow> True
      | RequestException msg \<Rightarrow> True
      | _ \<Rightarrow> False)"

definition stop_after_attempt :: nat where
  "stop_after_attempt = 5"

function retryer ::
  "('w http_env \<Rightarrow> (error + http_response) \<times> 'w http_env) \<Rightarrow> nat \<Rightarrow> 'w http_env \<Rightarrow>
   (error + http_response) \<times> 'w http_env"
where
  "retryer fn attempt_number e =
     (case fn e of
        (Inr response, e') \<Rightarrow> (Inr response, e')
      | (Inl exc, e') \<Rightarrow>
          if \<not> retry_if_exception_type exc then (Inl exc, e')
          else if attempt_number \<ge> stop_after_attempt then (Inl exc, e')
          else retryer fn (attempt_number + 1) e')"
  by pat_completeness auto
termination
  by (relation "measure (\<lambda>(fn, attempt_number, e). stop_after_attempt - attempt_number)") auto

declare retryer.simps [simp del]

definition request ::
  "'w confluence_client \<Rightarrow> string \<Rightarrow> string \<Rightarrow> (string \<times> string) list option \<Rightarrow>
   json option \<Rightarrow> json option \<Rightarrow> (string \<rightharpoonup> string) option \<Rightarrow> (string \<times> string) option \<Rightarrow>
   'w http_env \<Rightarrow> (error + http_response) \<times> 'w http_env"
where
  "request c method path params data json_body headers file_parts e =
     (let url = base_url c @ path
      in retryer (send_request c method url params data json_body headers file_parts) 1 e)"

text \<open>
  \<open>update_labels\<close>. The order in which Python iterates over \<open>set(labels)\<close> is not
  specified; the model keeps the last occurrence of each label, in the order given.
\<close>

definition update_labels ::
  "'w confluence_client \<Rightarrow> string \<Rightarrow> string list \<Rightarrow> 'w http_env \<Rightarrow> (error + unit) \<times> 'w http_env"
where
  "update_labels c page_id labels e =
     (let labels' = filter (\<lambda>label. label \<noteq> []) (remdups labels)
      in if labels' = [] then (Inr (), e)
         else
           (let payload = JList (map (\<lambda>label. JObject [(''prefix'', JStr ''global''),
                                                         (''name'', JStr label)]) labels')
            in case request c ''POST'' (''/rest/api/content/'' @ page_id @ ''/label'') None
                      (Some payload) None
                      (Some [''Content-Type'' \<mapsto> ''application/json'']) None e of
                 (Inl exc, e') \<Rightarrow> (Inl exc, e')
               | (Inr response, e') \<Rightarrow> (Inr (), e')))"

text \<open>
  The transient failures in the words of the specification: connection or transport
  errors, and the HTTP statuses 429, 502, 503 and 504.
\<close>

definition spec_transient :: "transport_result \<Rightarrow> bool" where
  "spec_transient result =
     (case result of
        TransportError msg \<Rightarrow> True
      | OtherFailure msg \<Rightarrow> False
      | Responded response \<Rightarrow> status_code response \<in> {429, 502, 503, 504})"

text \<open>
  An example client on a network whose state counts the calls made so far: the server
  answers the first \<open>k\<close> calls with status 503 and every later call with status
  \<open>final\<close>.
\<close>

definition example_response :: "int \<Rightarrow> http_response" where
  "example_response status =
     \<lparr>status_code = status, resp_headers = [],
      resp_body = JsonBody (JObject [(''message'', JStr ''no'')])\<rparr>"

definition example_client :: "nat \<Rightarrow> int \<Rightarrow> nat confluence_client" where
  "example_client k final =
     \<lparr>base_url = ''https://example.atlassian.net/wiki'',
      session_headers = [''Accept'' \<mapsto> ''application/json''],
      session_request = (\<lambda>n rq. (Responded (example_response (if n < k then 503 else final)), Suc n)),
      py_str = (\<lambda>j. ''?'')\<rparr>"

definition example_env :: "nat http_env" where
  "example_env = \<lparr>net = 0, exchanges = []\<rparr>"

section \<open>Plan entries and conflict records (app/models.py)\<close>

datatype sync_action = CREATE | UPDATE | SKIP | CONFLICT

record sync_plan_entry =
  pe_note :: vault_note
  pe_action :: sync_action
  pe_target_page_id :: "string option"
  pe_parent_page_id :: "string option"
  pe_reason :: "string option"
  pe_labels :: "string list"

record conflict_record =
  cr_file_path :: string
  cr_page_id :: string
  cr_reason :: string
  cr_detected_at :: datetime

definition build_conflict_record :: "datetime \<Rightarrow> string \<Rightarrow> string \<Rightarrow> string \<Rightarrow> conflict_record" where
  "build_conflict_record clock file_path page_id reason =
     \<lparr>cr_file_path = file_path, cr_page_id = page_id, cr_reason = reason,
      cr_detected_at = clock\<rparr>"

section \<open>The engine's collaborators (app/sync.py, app/attachments.py)\<close>

record settings =
  confluence_space_key :: string
  confluence_root_page_title :: string
  obsidian_vault_path :: string

text \<open>
  The engine and the page hierarchy manager receive the client as a constructor argument
  and call six of its operations. They are modelled against any client: each operation
  takes the state of the remote service and gives a result or an exception and the next
  state. Every call the engine makes is logged, oldest first.
\<close>

record attachment_response =
  ar_filename :: string
  ar_download_url :: "string option"

record 'w remote_client =
  rc_ensure_root_page :: "'w \<Rightarrow> string \<Rightarrow> string \<Rightarrow> (error + remote_page) \<times> 'w"
  rc_get_page :: "'w \<Rightarrow> string \<Rightarrow> (error + remote_page) \<times> 'w"
  rc_find_page :: "'w \<Rightarrow> string \<Rightarrow> string \<Rightarrow> string option \<Rightarrow> (error + remote_page option) \<times> 'w"
  rc_create_page ::
    "'w \<Rightarrow> string \<Rightarrow> string \<Rightarrow> string \<Rightarrow> string option \<Rightarrow> string list \<Rightarrow> (error + remote_page) \<times> 'w"
  rc_update_page ::
    "'w \<Rightarrow> string \<Rightarrow> string \<Rightarrow> string \<Rightarrow> string option \<Rightarrow> string list \<Rightarrow> int \<Rightarrow>
     (error + remote_page) \<times> 'w"
  rc_upload_attachment :: "'w \<Rightarrow> string \<Rightarrow> string \<Rightarrow> (error + attachment_response) \<times> 'w"

datatype remote_call =
    EnsureRootPage string string
  | GetPage string
  | FindPage string string "string option"
  | CreatePage string string string "string option" "string list"
  | UpdatePage string string string "string option" "string list" int
  | UploadAttachment string string

text \<open>
  The calls that only read the remote service. \<open>ensure_root_page\<close> creates the root
  page when it is missing, and \<open>create_page\<close> and \<open>update_page\<close> also update labels.
\<close>

fun is_remote_read :: "remote_call \<Rightarrow> bool" where
  "is_remote_read (GetPage page_id) = True"
| "is_remote_read (FindPage space_key title parent_page_id) = True"
| "is_remote_read (EnsureRootPage space_key title) = False"
| "is_remote_read (CreatePage space_key title body parent_page_id labels) = False"
| "is_remote_read (UpdatePage page_id title body parent_page_id labels version) = False"
| "is_remote_read (UploadAttachment page_id file_path) = False"

text \<open>
  What the engine acts on: the remote service with the log of calls, and the state store.
\<close>

record 'w sync_env =
  remote :: 'w
  remote_calls :: "remote_call list"
  state :: state_store

definition call_ensure_root_page ::
  "'w remote_client \<Rightarrow> 'w sync_env \<Rightarrow> string \<Rightarrow> string \<Rightarrow> (error + remote_page) \<times> 'w sync_env"
where
  "call_ensure_root_page c e space_key title =
     (let (r, w) = rc_ensure_root_page c (remote e) space_key title
      in (r, e\<lparr>remote := w, remote_calls := remote_calls e @ [EnsureRootPage space_key title]\<rparr>))"

definition call_get_page ::
  "'w remote_client \<Rightarrow> 'w sync_env \<Rightarrow> string \<Rightarrow> (error + remote_page) \<times> 'w sync_env"
where
  "call_get_page c e page_id =
     (let (r, w) = rc_get_page c (remote e) page_id
      in (r, e\<lparr>remote := w, remote_calls := remote_calls e @ [GetPage page_id]\<rparr>))"

definition call_find_page ::
  "'w remote_client \<Rightarrow> 'w sync_env \<Rightarrow> string \<Rightarrow> string \<Rightarrow> string option \<Rightarrow>
   (error + remote_page option) \<times> 'w sync_env"
where
  "call_find_page c e space_key title parent_page_id =
     (let (r, w) = rc_find_page c (remote e) space_key title parent_page_id
      in (r, e\<lparr>remote := w,
               remote_calls := remote_calls e @ [FindPage space_key title parent_page_id]\<rparr>))"

definition call_create_page ::
  "'w remote_client \<Rightarrow> 'w sync_env \<Rightarrow> string \<Rightarrow> string \<Rightarrow> string \<Rightarrow> string option \<Rightarrow>
   string list \<Rightarrow> (error + remote_page) \<times> 'w sync_env"
where
  "call_create_page c e space_key title body parent_page_id labels =
     (let (r, w) = rc_create_page c (remote e) space_key title body parent_page_id labels
      in (r, e\<lparr>remote := w,
               remote_calls := remote_calls e @
                 [CreatePage space_key title body parent_page_id labels]\<rparr>))"

definition call_update_page ::
  "'w remote_client \<Rightarrow> 'w sync_env \<Rightarrow> string \<Rightarrow> string \<Rightarrow> string \<Rightarrow> string option \<Rightarrow>
   string list \<Rightarrow> int \<Rightarrow> (error + remote_page) \<times> 'w sync_env"
where
  "call_update_page c e page_id title body parent_page_id labels version =
     (let (r, w) = rc_update_page c (remote e) page_id title body parent_page_id labels version
      in (r, e\<lparr>remote := w,
               remote_calls := remote_calls e @
                 [UpdatePage page_id title body parent_page_id labels version]\<rparr>))"

definition call_upload_attachment ::
  "'w remote_client \<Rightarrow> 'w sync_env \<Rightarrow> string \<Rightarrow> string \<Rightarrow>
   (error + attachment_response) \<times> 'w sync_env"
where
  "call_upload_attachment c e page_id file_path =
     (let (r, w) = rc_upload_attachment c (remote e) page_id file_path
      in (r, e\<lparr>remote := w, remote_calls := remote_calls e @ [UploadAttachment page_id file_path]\<rparr>))"

text \<open>
  Link rewriting over the whole note, the search for local images and the conversion to
  storage markup are pure functions of the note's text; the engine is modelled for any
  such functions.
\<close>

record image_link =
  il_alt_text :: string
  il_target :: string
  il_absolute_path :: string

record uploaded_attachment =
  ua_filename :: string
  ua_download_url :: "string option"

record collaborators =
  co_rewrite_links :: "vault_note \<Rightarrow> link_index \<Rightarrow> string"
  co_find_local_image_links :: "vault_note \<Rightarrow> string \<Rightarrow> image_link list"
  co_rewrite_image_targets :: "string \<Rightarrow> (string \<times> uploaded_attachment) list \<Rightarrow> string"
  co_markdown_to_confluence_storage :: "string \<Rightarrow> string"

section \<open>Paths\<close>

text \<open>\<open>s.split(sep)\<close> for a single character.\<close>

fun split_char :: "char \<Rightarrow> string \<Rightarrow> string list" where
  "split_char sep [] = [[]]"
| "split_char sep (c # cs) =
     (if c = sep then [] # split_char sep cs
      else (case split_char sep cs of
              [] \<Rightarrow> [[c]]
            | w # ws \<Rightarrow> (c # w) # ws))"

text \<open>
  \<open>Path(s).parts\<close> on a POSIX system: the root, if the path is absolute, and then the
  components between slashes, without empty components and without \<open>.\<close>.
\<close>

definition path_parts :: "string \<Rightarrow> string list" where
  "path_parts s =
     (if take 2 s = ''//'' \<and> take 3 s \<noteq> ''///'' then [''//'']
      else if take 1 s = ''/'' then [''/'']
      else [])
     @ filter (\<lambda>p. p \<noteq> [] \<and> p \<noteq> ''.'') (split_char CHR ''/'' s)"

definition path_name :: "string \<Rightarrow> string" where
  "path_name s =
     (case filter (\<lambda>p. p \<noteq> [] \<and> p \<noteq> ''.'') (split_char CHR ''/'' s) of
        [] \<Rightarrow> []
      | ps \<Rightarrow> last ps)"

section \<open>Page hierarchy manager (app/sync.py)\<close>

record page_hierarchy_manager =
  cache :: "(string \<times> string option) \<rightharpoonup> string"
  dry_counter :: nat
  root_page :: "remote_page option"

definition new_manager :: page_hierarchy_manager where
  "new_manager = \<lparr>cache = Map.empty, dry_counter = 0, root_page = None\<rparr>"

definition synthetic_id :: "page_hierarchy_manager \<Rightarrow> string \<Rightarrow> string \<times> page_hierarchy_manager" where
  "synthetic_id m title =
     (let counter = dry_counter m + 1
      in (''dryrun-'' @ str_nat counter @ ''-'' @ replace_char CHR '' '' ''-'' (lower title),
          m\<lparr>dry_counter := counter\<rparr>))"

text \<open>The \<open>upsert_page\<close> call that records a page as the remote service returned it.\<close>

definition upsert_remote_page :: "state_store \<Rightarrow> remote_page \<Rightarrow> state_store" where
  "upsert_remote_page s p =
     upsert_page s (rp_page_id p) (rp_title p) (rp_parent_page_id p) (Some (rp_version p))
       (rp_last_updated p)"

definition ensure_root ::
  "settings \<Rightarrow> 'w remote_client \<Rightarrow> bool \<Rightarrow> page_hierarchy_manager \<Rightarrow> 'w sync_env \<Rightarrow>
   (error + remote_page) \<times> page_hierarchy_manager \<times> 'w sync_env"
where
  "ensure_root st c dry_run m e =
     (case root_page m of
        Some p \<Rightarrow> (Inr p, m, e)
      | None \<Rightarrow>
          if dry_run then
            (let (sid, m1) = synthetic_id m ''root'';
                 p = \<lparr>rp_page_id = sid, rp_title = confluence_root_page_title st,
                      rp_parent_page_id = None, rp_version = 1, rp_last_updated = None\<rparr>
             in (Inr p,
                 m1\<lparr>root_page := Some p,
                    cache := (cache m1)((rp_title p, None) \<mapsto> rp_page_id p)\<rparr>,
                 e))
          else
            (case call_ensure_root_page c e (confluence_space_key st)
                    (confluence_root_page_title st) of
               (Inl exc, e1) \<Rightarrow> (Inl exc, m, e1)
             | (Inr p, e1) \<Rightarrow>
                 (Inr p,
                  m\<lparr>cache := (cache m)((rp_title p, rp_parent_page_id p) \<mapsto> rp_page_id p),
                    root_page := Some p\<rparr>,
                  e1\<lparr>state := upsert_remote_page (state e1) p\<rparr>)))"

definition ensure_page ::
  "settings \<Rightarrow> 'w remote_client \<Rightarrow> string \<Rightarrow> string option \<Rightarrow> bool \<Rightarrow>
   page_hierarchy_manager \<Rightarrow> 'w sync_env \<Rightarrow>
   (error + string) \<times> page_hierarchy_manager \<times> 'w sync_env"
where
  "ensure_page st c title parent_id dry_run m e =
     (case cache m (title, parent_id) of
        Some page_id \<Rightarrow> (Inr page_id, m, e)
      | None \<Rightarrow>
          if dry_run then
            (let (sid, m1) = synthetic_id m title
             in (Inr sid, m1\<lparr>cache := (cache m1)((title, parent_id) \<mapsto> sid)\<rparr>, e))
          else
            (case call_find_page c e (confluence_space_key st) title parent_id of
               (Inl exc, e1) \<Rightarrow> (Inl exc, m, e1)
             | (Inr (Some existing), e1) \<Rightarrow>
                 (Inr (rp_page_id existing),
                  m\<lparr>cache := (cache m)((title, parent_id) \<mapsto> rp_page_id existing)\<rparr>,
                  e1\<lparr>state := upsert_remote_page (state e1) existing\<rparr>)
             | (Inr None, e1) \<Rightarrow>
                 (case call_create_page c e1 (confluence_space_key st) title
                         ''<p>Folder placeholder</p>'' parent_id [] of
                    (Inl exc, e2) \<Rightarrow> (Inl exc, m, e2)
                  | (Inr new_page, e2) \<Rightarrow>
                      (Inr (rp_page_id new_page),
                       m\<lparr>cache := (cache m)((title, parent_id) \<mapsto> rp_page_id new_page)\<rparr>,
                       e2\<lparr>state := upsert_remote_page (state e2) new_page\<rparr>))))"

definition folder_chain :: "vault_note \<Rightarrow> string list" where
  "folder_chain note = butlast (path_parts (vn_relative_path note))"

text \<open>The loop of \<open>resolve_parent\<close> over the title chain.\<close>

fun ensure_chain ::
  "settings \<Rightarrow> 'w remote_client \<Rightarrow> bool \<Rightarrow> string list \<Rightarrow> string option \<Rightarrow>
   page_hierarchy_manager \<Rightarrow> 'w sync_env \<Rightarrow>
   (error + string option) \<times> page_hierarchy_manager \<times> 'w sync_env"
where
  "ensure_chain st c dry_run [] parent_id m e = (Inr parent_id, m, e)"
| "ensure_chain st c dry_run (title # title_chain) parent_id m e =
     (case ensure_page st c title parent_id dry_run m e of
        (Inl exc, m1, e1) \<Rightarrow> (Inl exc, m1, e1)
      | (Inr page_id, m1, e1) \<Rightarrow> ensure_chain st c dry_run title_chain (Some page_id) m1 e1)"

definition title_chain :: "vault_note \<Rightarrow> string list" where
  "title_chain note =
     (case fm_parent (vn_frontmatter note) of
        None \<Rightarrow> folder_chain note
      | Some parent \<Rightarrow> if parent \<noteq> [] then [parent] else folder_chain note)"

definition resolve_parent ::
  "settings \<Rightarrow> 'w remote_client \<Rightarrow> vault_note \<Rightarrow> bool \<Rightarrow>
   page_hierarchy_manager \<Rightarrow> 'w sync_env \<Rightarrow>
   (error + string option) \<times> page_hierarchy_manager \<times> 'w sync_env"
where
  "resolve_parent st c note dry_run m e =
     (case ensure_root st c dry_run m e of
        (Inl exc, m1, e1) \<Rightarrow> (Inl exc, m1, e1)
      | (Inr root, m1, e1) \<Rightarrow>
          ensure_chain st c dry_run (title_chain note) (Some (rp_page_id root)) m1 e1)"

section \<open>Sync engine (app/sync.py)\<close>

text \<open>\<open>note.frontmatter.title or note.title\<close>\<close>

definition note_title :: "vault_note \<Rightarrow> string" where
  "note_title note =
     (case fm_title (vn_frontmatter note) of
        None \<Rightarrow> vn_title note
      | Some t \<Rightarrow> if t \<noteq> [] then t else vn_title note)"

text \<open>
  \<open>_lookup_target_page\<close>. The two \<open>get_page\<close> calls sit in \<open>try\<close> blocks whose
  \<open>except Exception\<close> clause logs and falls through; the final \<open>find_page\<close> does not.
\<close>

definition lookup_by_binding_or_search ::
  "settings \<Rightarrow> 'w remote_client \<Rightarrow> vault_note \<Rightarrow> string option \<Rightarrow> 'w sync_env \<Rightarrow>
   (error + remote_page option \<times> binding_record option) \<times> 'w sync_env"
where
  "lookup_by_binding_or_search st c note parent_id e =
     (let binding = get_binding_for_path (state e) (vn_relative_path note);
          search = (\<lambda>e1.
            case call_find_page c e1 (confluence_space_key st) (note_title note) parent_id of
              (Inl exc, e2) \<Rightarrow> (Inl exc, e2)
            | (Inr page, e2) \<Rightarrow> (Inr (page, binding), e2))
      in case binding of
           None \<Rightarrow> search e
         | Some b \<Rightarrow>
             (case call_get_page c e (br_page_id b) of
                (Inr page, e1) \<Rightarrow> (Inr (Some page, binding), e1)
              | (Inl exc, e1) \<Rightarrow> search e1))"

definition lookup_target_page ::
  "settings \<Rightarrow> 'w remote_client \<Rightarrow> vault_note \<Rightarrow> string option \<Rightarrow> 'w sync_env \<Rightarrow>
   (error + remote_page option \<times> binding_record option) \<times> 'w sync_env"
where
  "lookup_target_page st c note parent_id e =
     (case fm_page_id (vn_frontmatter note) of
        None \<Rightarrow> lookup_by_binding_or_search st c note parent_id e
      | Some page_id \<Rightarrow>
          if page_id = [] then lookup_by_binding_or_search st c note parent_id e
          else
            (case call_get_page c e page_id of
               (Inr page, e1) \<Rightarrow>
                 (Inr (Some page, get_binding_for_page (state e1) (rp_page_id page)), e1)
             | (Inl exc, e1) \<Rightarrow> lookup_by_binding_or_search st c note parent_id e1))"

text \<open>\<open>attachments.upload_attachments\<close>; the dictionary it returns is a list of pairs.\<close>

fun upload_attachments ::
  "'w remote_client \<Rightarrow> string \<Rightarrow> image_link list \<Rightarrow> bool \<Rightarrow> 'w sync_env \<Rightarrow>
   (error + (string \<times> uploaded_attachment) list) \<times> 'w sync_env"
where
  "upload_attachments c page_id [] dry_run e = (Inr [], e)"
| "upload_attachments c page_id (img # images) dry_run e =
     (if dry_run then
        (case upload_attachments c page_id images dry_run e of
           (Inl exc, e1) \<Rightarrow> (Inl exc, e1)
         | (Inr mapping, e1) \<Rightarrow>
             (Inr ((il_target img,
                    \<lparr>ua_filename = path_name (il_absolute_path img),
                     ua_download_url = None\<rparr>) # mapping), e1))
      else
        (case call_upload_attachment c e page_id (il_absolute_path img) of
           (Inl exc, e1) \<Rightarrow> (Inl exc, e1)
         | (Inr response, e1) \<Rightarrow>
             (case upload_attachments c page_id images dry_run e1 of
                (Inl exc, e2) \<Rightarrow> (Inl exc, e2)
              | (Inr mapping, e2) \<Rightarrow>
                  (Inr ((il_target img,
                         \<lparr>ua_filename = ar_filename response,
                          ua_download_url = ar_download_url response\<rparr>) # mapping), e2))))"

definition record_state :: "datetime \<Rightarrow> vault_note \<Rightarrow> remote_page \<Rightarrow> state_store \<Rightarrow> state_store" where
  "record_state now note remote_page s =
     upsert_remote_page (upsert_file s (vn_relative_path note) (vn_sha256 note) now) remote_page"

text \<open>
  \<open>SyncEngine._create_page\<close> and \<open>SyncEngine._update_page\<close> are
  \<open>engine_create_page\<close> and \<open>engine_update_page\<close> here, apart from the client's
  operations of the same names. Their common end: record the state, bind the path to the
  page, upload the images.
\<close>

definition record_bind_upload ::
  "'w remote_client \<Rightarrow> datetime \<Rightarrow> vault_note \<Rightarrow> remote_page \<Rightarrow> image_link list \<Rightarrow>
   'w sync_env \<Rightarrow> (error + remote_page option) \<times> 'w sync_env"
where
  "record_bind_upload c now note page images e =
     (let e1 = e\<lparr>state := record_state now note page (state e)\<rparr>
      in case set_binding (state e1) (vn_relative_path note) (rp_page_id page) of
           (Inl exc, s2) \<Rightarrow> (Inl exc, e1\<lparr>state := s2\<rparr>)
         | (Inr u, s2) \<Rightarrow>
             if images \<noteq> [] then
               (case upload_attachments c (rp_page_id page) images False (e1\<lparr>state := s2\<rparr>) of
                  (Inl exc, e3) \<Rightarrow> (Inl exc, e3)
                | (Inr mapping, e3) \<Rightarrow> (Inr (Some page), e3))
             else (Inr (Some page), e1\<lparr>state := s2\<rparr>))"

definition engine_create_page ::
  "settings \<Rightarrow> 'w remote_client \<Rightarrow> datetime \<Rightarrow> vault_note \<Rightarrow> string option \<Rightarrow> string \<Rightarrow>
   string list \<Rightarrow> image_link list \<Rightarrow> bool \<Rightarrow> 'w sync_env \<Rightarrow>
   (error + remote_page option) \<times> 'w sync_env"
where
  "engine_create_page st c now note parent_id storage_body labels images dry_run e =
     (if dry_run then (Inr None, e)
      else
        (case call_create_page c e (confluence_space_key st) (note_title note) storage_body
                parent_id labels of
           (Inl exc, e1) \<Rightarrow> (Inl exc, e1)
         | (Inr page, e1) \<Rightarrow> record_bind_upload c now note page images e1))"

definition engine_update_page ::
  "'w remote_client \<Rightarrow> datetime \<Rightarrow> vault_note \<Rightarrow> remote_page \<Rightarrow> string option \<Rightarrow> string \<Rightarrow>
   string list \<Rightarrow> image_link list \<Rightarrow> bool \<Rightarrow> 'w sync_env \<Rightarrow>
   (error + remote_page option) \<times> 'w sync_env"
where
  "engine_update_page c now note remote_page parent_id storage_body labels images dry_run e =
     (if dry_run then (Inr None, e)
      else
        (case call_update_page c e (rp_page_id remote_page) (note_title note) storage_body
                parent_id labels (rp_version remote_page + 1) of
           (Inl exc, e1) \<Rightarrow> (Inl exc, e1)
         | (Inr page, e1) \<Rightarrow> record_bind_upload c now note page images e1))"

text \<open>
  The part of \<open>_process_note\<close> after the two early returns: rewrite, convert, then
  update the target page or create a new one.
\<close>

definition apply_note ::
  "settings \<Rightarrow> 'w remote_client \<Rightarrow> collaborators \<Rightarrow> datetime \<Rightarrow> vault_note \<Rightarrow> link_index \<Rightarrow>
   bool \<Rightarrow> string option \<Rightarrow> remote_page option \<Rightarrow> 'w sync_env \<Rightarrow>
   (error + sync_plan_entry \<times> conflict_record option) \<times> 'w sync_env"
where
  "apply_note st c co now note link_index dry_run parent_id target_page e =
     (let working_note = note\<lparr>vn_content := co_rewrite_links co note link_index\<rparr>;
          images = co_find_local_image_links co working_note (obsidian_vault_path st);
          planned_attachments =
            map (\<lambda>img. (il_target img,
                           \<lparr>ua_filename = path_name (il_absolute_path img),
                            ua_download_url = None\<rparr>)) images;
          working_content = co_rewrite_image_targets co (vn_content working_note) planned_attachments;
          storage_body = co_markdown_to_confluence_storage co working_content;
          labels = fm_labels (vn_frontmatter note)
      in case target_page of
           Some page \<Rightarrow>
             (case engine_update_page c now note page parent_id storage_body labels images
                     dry_run e of
                (Inl exc, e1) \<Rightarrow> (Inl exc, e1)
              | (Inr updated_page, e1) \<Rightarrow>
                  (Inr (\<lparr>pe_note = note, pe_action = UPDATE,
                          pe_target_page_id =
                            (case updated_page of
                               Some u \<Rightarrow> Some (rp_page_id u)
                             | None \<Rightarrow> Some (rp_page_id page)),
                          pe_parent_page_id = parent_id, pe_reason = None,
                          pe_labels = labels\<rparr>, None), e1))
         | None \<Rightarrow>
             (case engine_create_page st c now note parent_id storage_body labels images
                     dry_run e of
                (Inl exc, e1) \<Rightarrow> (Inl exc, e1)
              | (Inr created_page, e1) \<Rightarrow>
                  (Inr (\<lparr>pe_note = note, pe_action = CREATE,
                          pe_target_page_id = map_option rp_page_id created_page,
                          pe_parent_page_id = parent_id, pe_reason = None,
                          pe_labels = labels\<rparr>, None), e1)))"

text \<open>
  The part of \<open>_process_note\<close> once the parent and the target page are known: the
  conflict check, the check for an unchanged note, and the write.
\<close>

definition decide_note ::
  "settings \<Rightarrow> 'w remote_client \<Rightarrow> collaborators \<Rightarrow> datetime \<Rightarrow> datetime \<Rightarrow> vault_note \<Rightarrow>
   link_index \<Rightarrow> bool \<Rightarrow> string option \<Rightarrow> remote_page option \<Rightarrow> 'w sync_env \<Rightarrow>
   (error + sync_plan_entry \<times> conflict_record option) \<times> 'w sync_env"
where
  "decide_note st c co now clock note link_index dry_run parent_id target_page e =
     (let file_record = get_file (state e) (vn_relative_path note);
          labels = fm_labels (vn_frontmatter note)
      in case target_page of
           None \<Rightarrow> apply_note st c co now note link_index dry_run parent_id None e
         | Some page \<Rightarrow>
             (case has_conflict file_record (get_page (state e) (rp_page_id page)) (Some page)
                     (vn_sha256 note) of
                Inl exc \<Rightarrow> (Inl exc, e)
              | Inr True \<Rightarrow>
                  (Inr (\<lparr>pe_note = note, pe_action = CONFLICT,
                          pe_target_page_id = Some (rp_page_id page),
                          pe_parent_page_id = parent_id,
                          pe_reason = Some ''Remote page changed; manual review required'',
                          pe_labels = labels\<rparr>,
                        Some (build_conflict_record clock (vn_path note) (rp_page_id page)
                                ''Remote page changed since last sync'')), e)
              | Inr False \<Rightarrow>
                  if (case file_record of
                        None \<Rightarrow> False
                      | Some fr \<Rightarrow> fr_sha256 fr = vn_sha256 note)
                  then (Inr (\<lparr>pe_note = note, pe_action = SKIP,
                               pe_target_page_id = Some (rp_page_id page),
                               pe_parent_page_id = parent_id,
                               pe_reason = Some ''No changes detected'',
                               pe_labels = labels\<rparr>, None), e)
                  else apply_note st c co now note link_index dry_run parent_id (Some page) e))"

definition process_note ::
  "settings \<Rightarrow> 'w remote_client \<Rightarrow> collaborators \<Rightarrow> datetime \<Rightarrow> datetime \<Rightarrow> vault_note \<Rightarrow>
   link_index \<Rightarrow> bool \<Rightarrow> page_hierarchy_manager \<Rightarrow> 'w sync_env \<Rightarrow>
   (error + sync_plan_entry \<times> conflict_record option) \<times> page_hierarchy_manager \<times> 'w sync_env"
where
  "process_note st c co now clock note link_index dry_run m e =
     (if fm_exclude (vn_frontmatter note) then
        (Inr (\<lparr>pe_note = note, pe_action = SKIP, pe_target_page_id = None,
                pe_parent_page_id = None, pe_reason = Some ''Frontmatter exclude flag'',
                pe_labels = fm_labels (vn_frontmatter note)\<rparr>, None), m, e)
      else
        (case resolve_parent st c note dry_run m e of
           (Inl exc, m1, e1) \<Rightarrow> (Inl exc, m1, e1)
         | (Inr parent_id, m1, e1) \<Rightarrow>
             (case lookup_target_page st c note parent_id e1 of
                (Inl exc, e2) \<Rightarrow> (Inl exc, m1, e2)
              | (Inr (target_page, binding), e2) \<Rightarrow>
                  (case decide_note st c co now clock note link_index dry_run parent_id
                          target_page e2 of
                     (r, e3) \<Rightarrow> (r, m1, e3)))))"

section \<open>An example remote service\<close>

text \<open>
  A small remote service for the examples: its state is the list of its pages. Pages are
  found by title and parent, created with the next free number as id and version 1, and
  updated in place.
\<close>

definition example_find :: "remote_page list \<Rightarrow> string \<Rightarrow> string option \<Rightarrow> remote_page option" where
  "example_find w title parent_page_id =
     find (\<lambda>p. rp_title p = title \<and> rp_parent_page_id p = parent_page_id) w"

definition example_create ::
  "remote_page list \<Rightarrow> string \<Rightarrow> string option \<Rightarrow> (error + remote_page) \<times> remote_page list"
where
  "example_create w title parent_page_id =
     (let p = \<lparr>rp_page_id = str_nat (length w + 1), rp_title = title,
               rp_parent_page_id = parent_page_id, rp_version = 1,
               rp_last_updated = Some (Aware 100 0)\<rparr>
      in (Inr p, w @ [p]))"

definition example_remote :: "remote_page list remote_client" where
  "example_remote =
     \<lparr>rc_ensure_root_page = (\<lambda>w space_key title.
        case example_find w title None of
          Some p \<Rightarrow> (Inr p, w)
        | None \<Rightarrow> example_create w title None),
      rc_get_page = (\<lambda>w page_id.
        case find (\<lambda>p. rp_page_id p = page_id) w of
          Some p \<Rightarrow> (Inr p, w)
        | None \<Rightarrow> (Inl (ConfluenceError ''HTTP 404''), w)),
      rc_find_page = (\<lambda>w space_key title parent_page_id.
        (Inr (example_find w title parent_page_id), w)),
      rc_create_page = (\<lambda>w space_key title body parent_page_id labels.
        example_create w title parent_page_id),
      rc_update_page = (\<lambda>w page_id title body parent_page_id labels version.
        case find (\<lambda>p. rp_page_id p = page_id) w of
          Some p \<Rightarrow>
            (let p' = p\<lparr>rp_title := title, rp_version := version,
                        rp_last_updated := Some (Aware 200 0)\<rparr>
             in (Inr p', map (\<lambda>q. if rp_page_id q = page_id then p' else q) w))
        | None \<Rightarrow> (Inl (ConfluenceError ''HTTP 404''), w)),
      rc_upload_attachment = (\<lambda>w page_id file_path.
        (Inr \<lparr>ar_filename = path_name file_path, ar_download_url = None\<rparr>, w))\<rparr>"

definition example_settings :: settings where
  "example_settings =
     \<lparr>confluence_space_key = ''KB'', confluence_root_page_title = ''Knowledge Base'',
      obsidian_vault_path = ''/vault''\<rparr>"

definition example_collaborators :: collaborators where
  "example_collaborators =
     \<lparr>co_rewrite_links = (\<lambda>note index. vn_content note),
      co_find_local_image_links = (\<lambda>note vault_root. []),
      co_rewrite_image_targets = (\<lambda>content attachment_map. content),
      co_markdown_to_confluence_storage = (\<lambda>content. ''<p>'' @ content @ ''</p>'')\<rparr>"

text \<open>
  The note of the test vault, \<open>Guides/Example.md\<close> with title \<open>Example Title\<close>, parent
  \<open>Guides\<close> and labels \<open>docs\<close> and \<open>example\<close>; a remote service that holds the root page,
  the page \<open>Guides\<close> and the page of the note at version 4; and a state store that
  recorded the note with its current hash and bound it to that page.
\<close>

definition guide_note :: vault_note where
  "guide_note =
     \<lparr>vn_path = ''/vault/Guides/Example.md'', vn_relative_path = ''Guides/Example.md'',
      vn_title = ''Example Title'',
      vn_frontmatter = \<lparr>fm_title = Some ''Example Title'', fm_labels = [''docs'', ''example''],
                        fm_parent = Some ''Guides'', fm_exclude = False, fm_page_id = None\<rparr>,
      vn_content = ''Content body.'', vn_sha256 = ''same''\<rparr>"

definition synced_pages :: "remote_page list" where
  "synced_pages =
     [\<lparr>rp_page_id = ''1'', rp_title = ''Knowledge Base'', rp_parent_page_id = None,
       rp_version = 1, rp_last_updated = Some (Aware 100 0)\<rparr>,
      \<lparr>rp_page_id = ''2'', rp_title = ''Guides'', rp_parent_page_id = Some ''1'',
       rp_version = 1, rp_last_updated = Some (Aware 100 0)\<rparr>,
      \<lparr>rp_page_id = ''3'', rp_title = ''Example Title'', rp_parent_page_id = Some ''2'',
       rp_version = 4, rp_last_updated = Some (Aware 100 0)\<rparr>]"

definition synced_store :: state_store where
  "synced_store =
     \<lparr>files = [''Guides/Example.md'' \<mapsto>
                 \<lparr>fr_path = ''Guides/Example.md'', fr_sha256 = ''same'',
                  fr_last_synced_at = Some (Naive 100)\<rparr>],
      pages = [''3'' \<mapsto> \<lparr>pr_page_id = ''3'', pr_title = ''Example Title'',
                           pr_parent_page_id = Some ''2'', pr_last_seen_version = Some 4,
                           pr_last_seen_remote_updated_at = Some (Naive 100)\<rparr>],
      bindings = [\<lparr>br_file_path = ''Guides/Example.md'', br_page_id = ''3''\<rparr>]\<rparr>"

definition synced_env :: "remote_page list sync_env" where
  "synced_env = \<lparr>remote = synced_pages, remote_calls = [], state = synced_store\<rparr>"

section \<open>Read-only steps\<close>

text \<open>
  A step of the engine that only reads: the state store is as before, and the calls
  added to the log are all reads of the remote service.
\<close>

definition reads_only :: "'w sync_env \<Rightarrow> 'w sync_env \<Rightarrow> remote_call list \<Rightarrow> bool" where
  "reads_only e e' new =
     (state e' = state e \<and> remote_calls e' = remote_calls e @ new \<and>
      list_all is_remote_read new)"

section \<open>Properties of conflict detection\<close>

lemma dt_gt_irrefl: "dt_gt a a = Inr False"
  by (cases a) simp_all

text \<open>
  C1, as stated, fails: with a stored last seen version of 0 and a remote version of 1
  (no timestamps, changed hash) the remote version is strictly greater, yet the truthiness
  guard skips the comparison and no conflict is reported.
\<close>

theorem has_conflict_version_zero_counterexample:
  "\<not> (has_conflict
         (Some \<lparr>fr_path = ''a.md'', fr_sha256 = ''old'', fr_last_synced_at = None\<rparr>)
         (Some \<lparr>pr_page_id = ''123'', pr_title = ''A'', pr_parent_page_id = None,
                pr_last_seen_version = Some 0, pr_last_seen_remote_updated_at = None\<rparr>)
         (Some \<lparr>rp_page_id = ''123'', rp_title = ''A'', rp_parent_page_id = None,
                rp_version = 1, rp_last_updated = None\<rparr>)
         ''new'' = Inr True
       \<longleftrightarrow>
       spec_conflict_condition
         \<lparr>pr_page_id = ''123'', pr_title = ''A'', pr_parent_page_id = None,
          pr_last_seen_version = Some 0, pr_last_seen_remote_updated_at = None\<rparr>
         \<lparr>rp_page_id = ''123'', rp_title = ''A'', rp_parent_page_id = None,
          rp_version = 1, rp_last_updated = None\<rparr>)"
  by (simp add: spec_conflict_condition_def)

text \<open>
  C1, amended: with all three records present and a changed hash, the result is true
  exactly when the remote version and the stored last seen version are both present and
  non-zero and the remote version is strictly greater, or both timestamps are present
  and the remote one compares strictly greater. Equal versions together with equal
  timestamps give no conflict, and a changed hash with last seen version 3 and remote
  version 4 gives a conflict.
\<close>

theorem has_conflict_true_iff:
  "(current_sha \<noteq> fr_sha256 fr \<longrightarrow>
      (has_conflict (Some fr) (Some pr) (Some rp) current_sha = Inr True
       \<longleftrightarrow>
       (rp_version rp \<noteq> 0 \<and>
          (\<exists>last_seen. pr_last_seen_version pr = Some last_seen \<and> last_seen \<noteq> 0 \<and>
             rp_version rp > last_seen))
       \<or> (\<exists>remote_at seen_at. rp_last_updated rp = Some remote_at \<and>
             pr_last_seen_remote_updated_at pr = Some seen_at \<and>
             dt_gt remote_at seen_at = Inr True)))
   \<and> (pr_last_seen_version pr2 = Some (rp_version rp2) \<and>
        rp_last_updated rp2 = pr_last_seen_remote_updated_at pr2 \<longrightarrow>
        has_conflict (Some fr) (Some pr2) (Some rp2) current_sha = Inr False)
   \<and> (current_sha \<noteq> fr_sha256 fr \<and> pr_last_seen_version pr3 = Some 3 \<and> rp_version rp3 = 4 \<longrightarrow>
        has_conflict (Some fr) (Some pr3) (Some rp3) current_sha = Inr True)"
proof (intro conjI impI)
  assume "current_sha \<noteq> fr_sha256 fr"
  then show "has_conflict (Some fr) (Some pr) (Some rp) current_sha = Inr True
       \<longleftrightarrow>
       (rp_version rp \<noteq> 0 \<and>
          (\<exists>last_seen. pr_last_seen_version pr = Some last_seen \<and> last_seen \<noteq> 0 \<and>
             rp_version rp > last_seen))
       \<or> (\<exists>remote_at seen_at. rp_last_updated rp = Some remote_at \<and>
             pr_last_seen_remote_updated_at pr = Some seen_at \<and>
             dt_gt remote_at seen_at = Inr True)"
    by (auto split: option.splits)
next
  assume "pr_last_seen_version pr2 = Some (rp_version rp2) \<and>
        rp_last_updated rp2 = pr_last_seen_remote_updated_at pr2"
  then show "has_conflict (Some fr) (Some pr2) (Some rp2) current_sha = Inr False"
    by (auto simp: dt_gt_irrefl split: option.splits)
next
  assume "current_sha \<noteq> fr_sha256 fr \<and> pr_last_seen_version pr3 = Some 3 \<and> rp_version rp3 = 4"
  then show "has_conflict (Some fr) (Some pr3) (Some rp3) current_sha = Inr True"
    by simp
qed

theorem has_conflict_true_iff_witness:
  "''new'' \<noteq> fr_sha256 \<lparr>fr_path = ''Guides/Example.md'', fr_sha256 = ''old'', fr_last_synced_at = None\<rparr>
   \<and> has_conflict
        (Some \<lparr>fr_path = ''Guides/Example.md'', fr_sha256 = ''old'', fr_last_synced_at = None\<rparr>)
        (Some \<lparr>pr_page_id = ''123'', pr_title = ''Example'', pr_parent_page_id = None,
               pr_last_seen_version = Some 3, pr_last_seen_remote_updated_at = Some (Aware 10 0)\<rparr>)
        (Some \<lparr>rp_page_id = ''123'', rp_title = ''Example'', rp_parent_page_id = None,
               rp_version = 3, rp_last_updated = Some (Aware 20 0)\<rparr>)
        ''new'' = Inr True
   \<and> has_conflict
        (Some \<lparr>fr_path = ''Guides/Example.md'', fr_sha256 = ''old'', fr_last_synced_at = None\<rparr>)
        (Some \<lparr>pr_page_id = ''123'', pr_title = ''Example'', pr_parent_page_id = None,
               pr_last_seen_version = Some 4, pr_last_seen_remote_updated_at = Some (Aware 20 0)\<rparr>)
        (Some \<lparr>rp_page_id = ''123'', rp_title = ''Example'', rp_parent_page_id = None,
               rp_version = 4, rp_last_updated = Some (Aware 20 0)\<rparr>)
        ''new'' = Inr False
   \<and> has_conflict
        (Some \<lparr>fr_path = ''Guides/Example.md'', fr_sha256 = ''old'', fr_last_synced_at = None\<rparr>)
        (Some \<lparr>pr_page_id = ''123'', pr_title = ''Example'', pr_parent_page_id = None,
               pr_last_seen_version = Some 3, pr_last_seen_remote_updated_at = None\<rparr>)
        (Some \<lparr>rp_page_id = ''123'', rp_title = ''Example'', rp_parent_page_id = None,
               rp_version = 4, rp_last_updated = None\<rparr>)
        ''new'' = Inr True"
  using has_conflict_true_iff
    [of "''new''"
        "\<lparr>fr_path = ''Guides/Example.md'', fr_sha256 = ''old'', fr_last_synced_at = None\<rparr>"
        "\<lparr>pr_page_id = ''123'', pr_title = ''Example'', pr_parent_page_id = None,
          pr_last_seen_version = Some 3, pr_last_seen_remote_updated_at = Some (Aware 10 0)\<rparr>"
        "\<lparr>rp_page_id = ''123'', rp_title = ''Example'', rp_parent_page_id = None,
          rp_version = 3, rp_last_updated = Some (Aware 20 0)\<rparr>"
        "\<lparr>pr_page_id = ''123'', pr_title = ''Example'', pr_parent_page_id = None,
          pr_last_seen_version = Some 4, pr_last_seen_remote_updated_at = Some (Aware 20 0)\<rparr>"
        "\<lparr>rp_page_id = ''123'', rp_title = ''Example'', rp_parent_page_id = None,
          rp_version = 4, rp_last_updated = Some (Aware 20 0)\<rparr>"
        "\<lparr>pr_page_id = ''123'', pr_title = ''Example'', pr_parent_page_id = None,
          pr_last_seen_version = Some 3, pr_last_seen_remote_updated_at = None\<rparr>"
        "\<lparr>rp_page_id = ''123'', rp_title = ''Example'', rp_parent_page_id = None,
          rp_version = 4, rp_last_updated = None\<rparr>"]
  by simp

text \<open>
  C2: \<open>has_conflict\<close> returns false whenever one of the file record, the page record
  and the remote page is absent, and whenever the current hash equals the stored hash of
  the file record, whatever the versions and timestamps are.
\<close>

theorem has_conflict_absent_or_unchanged:
  "(file_record = None \<or> page_record = None \<or> remote_page = None \<longrightarrow>
      has_conflict file_record page_record remote_page current_sha = Inr False)
   \<and> ((\<exists>fr. file_record2 = Some fr \<and> fr_sha256 fr = current_sha2) \<longrightarrow>
      has_conflict file_record2 page_record2 remote_page2 current_sha2 = Inr False)"
proof (intro conjI impI)
  assume "file_record = None \<or> page_record = None \<or> remote_page = None"
  then show "has_conflict file_record page_record remote_page current_sha = Inr False"
    by (cases file_record; cases page_record; cases remote_page) auto
next
  assume "\<exists>fr. file_record2 = Some fr \<and> fr_sha256 fr = current_sha2"
  then show "has_conflict file_record2 page_record2 remote_page2 current_sha2 = Inr False"
    by (cases page_record2; cases remote_page2) auto
qed

theorem has_conflict_absent_or_unchanged_witness:
  "has_conflict
     (Some \<lparr>fr_path = ''Guides/Example.md'', fr_sha256 = ''old'', fr_last_synced_at = None\<rparr>)
     None
     (Some \<lparr>rp_page_id = ''123'', rp_title = ''Example'', rp_parent_page_id = None,
            rp_version = 9, rp_last_updated = Some (Aware 20 0)\<rparr>)
     ''new'' = Inr False
   \<and> has_conflict
     (Some \<lparr>fr_path = ''Guides/Example.md'', fr_sha256 = ''same'', fr_last_synced_at = None\<rparr>)
     (Some \<lparr>pr_page_id = ''123'', pr_title = ''Example'', pr_parent_page_id = None,
            pr_last_seen_version = Some 4, pr_last_seen_remote_updated_at = Some (Naive 10)\<rparr>)
     (Some \<lparr>rp_page_id = ''123'', rp_title = ''Example'', rp_parent_page_id = None,
            rp_version = 9, rp_last_updated = Some (Aware 20 0)\<rparr>)
     ''same'' = Inr False"
  using has_conflict_absent_or_unchanged
    [of "Some \<lparr>fr_path = ''Guides/Example.md'', fr_sha256 = ''old'', fr_last_synced_at = None\<rparr>"
        None
        "Some \<lparr>rp_page_id = ''123'', rp_title = ''Example'', rp_parent_page_id = None,
            rp_version = 9, rp_last_updated = Some (Aware 20 0)\<rparr>"
        "''new''"
        "Some \<lparr>fr_path = ''Guides/Example.md'', fr_sha256 = ''same'', fr_last_synced_at = None\<rparr>"
        "''same''"
        "Some \<lparr>pr_page_id = ''123'', pr_title = ''Example'', pr_parent_page_id = None,
            pr_last_seen_version = Some 4, pr_last_seen_remote_updated_at = Some (Naive 10)\<rparr>"
        "Some \<lparr>rp_page_id = ''123'', rp_title = ''Example'', rp_parent_page_id = None,
            rp_version = 9, rp_last_updated = Some (Aware 20 0)\<rparr>"]
  by simp

text \<open>
  C8: with all three records present and a changed hash, when the stored last seen
  version is absent or the remote version is 0 the version comparison is skipped: the
  result is the outcome of the timestamp comparison alone, which is true only when both
  timestamps are present (and false when one of them is absent), however large the
  remote version is.
\<close>

theorem has_conflict_version_skipped:
  "current_sha \<noteq> fr_sha256 fr \<and> (pr_last_seen_version pr = None \<or> rp_version rp = 0) \<longrightarrow>
     has_conflict (Some fr) (Some pr) (Some rp) current_sha =
       (case (rp_last_updated rp, pr_last_seen_remote_updated_at pr) of
          (Some remote_at, Some seen_at) \<Rightarrow> dt_gt remote_at seen_at
        | _ \<Rightarrow> Inr False)
     \<and> (has_conflict (Some fr) (Some pr) (Some rp) current_sha = Inr True \<longrightarrow>
          rp_last_updated rp \<noteq> None \<and> pr_last_seen_remote_updated_at pr \<noteq> None)"
  by (auto split: option.splits)

theorem has_conflict_version_skipped_witness:
  "''new'' \<noteq> fr_sha256 \<lparr>fr_path = ''a.md'', fr_sha256 = ''old'', fr_last_synced_at = None\<rparr>
   \<and> has_conflict
       (Some \<lparr>fr_path = ''a.md'', fr_sha256 = ''old'', fr_last_synced_at = None\<rparr>)
       (Some \<lparr>pr_page_id = ''123'', pr_title = ''A'', pr_parent_page_id = None,
              pr_last_seen_version = None, pr_last_seen_remote_updated_at = Some (Aware 10 0)\<rparr>)
       (Some \<lparr>rp_page_id = ''123'', rp_title = ''A'', rp_parent_page_id = None,
              rp_version = 7, rp_last_updated = Some (Aware 20 0)\<rparr>)
       ''new'' = Inr True"
  using has_conflict_version_skipped
    [of "''new''"
        "\<lparr>fr_path = ''a.md'', fr_sha256 = ''old'', fr_last_synced_at = None\<rparr>"
        "\<lparr>pr_page_id = ''123'', pr_title = ''A'', pr_parent_page_id = None,
          pr_last_seen_version = None, pr_last_seen_remote_updated_at = Some (Aware 10 0)\<rparr>"
        "\<lparr>rp_page_id = ''123'', rp_title = ''A'', rp_parent_page_id = None,
          rp_version = 7, rp_last_updated = Some (Aware 20 0)\<rparr>"]
  by simp

section \<open>Properties of the state store\<close>

lemma find_Some_set: "find P xs = Some x \<Longrightarrow> x \<in> set xs \<and> P x"
  by (induction xs) (auto split: if_splits)

lemma find_distinct_key:
  "x \<in> set xs \<Longrightarrow> distinct (map f xs) \<Longrightarrow> find (\<lambda>r. f r = f x) xs = Some x"
  by (induction xs) (auto simp: image_iff)

lemma set_binding_rejected:
  assumes "get_binding_for_path s P = Some r" "br_page_id r = X" "Q \<noteq> P"
  shows "set_binding s Q X = (Inl IntegrityError, s)"
proof -
  from assms(1) have "r \<in> set (bindings s)" "br_file_path r = P"
    by (auto simp: get_binding_for_path_def dest: find_Some_set)
  with assms(2,3) have "list_ex (\<lambda>r. br_file_path r \<noteq> Q \<and> br_page_id r = X) (bindings s)"
    unfolding list_ex_iff by fast
  then show ?thesis by (simp add: set_binding_def)
qed

lemma bound_page_lookup:
  assumes "bindings_bijective s" "get_binding_for_path s P = Some r"
  shows "get_binding_for_page s (br_page_id r) = Some r"
proof -
  from assms(2) have "r \<in> set (bindings s)"
    by (auto simp: get_binding_for_path_def dest: find_Some_set)
  with assms(1) show ?thesis
    unfolding get_binding_for_page_def bindings_bijective_def
    using find_distinct_key[of r "bindings s" br_page_id] by simp
qed

lemma distinct_page_id_update:
  assumes "distinct (map br_file_path bs)" "distinct (map br_page_id bs)"
    "\<not> list_ex (\<lambda>r. br_file_path r \<noteq> fp \<and> br_page_id r = pid) bs"
  shows "distinct (map br_page_id
           (map (\<lambda>r. if br_file_path r = fp then r\<lparr>br_page_id := pid\<rparr> else r) bs))"
  using assms by (induction bs) (auto simp: list_ex_iff image_iff)

lemma distinct_file_path_update:
  "distinct (map br_file_path bs) \<Longrightarrow>
   distinct (map br_file_path
     (map (\<lambda>r. if br_file_path r = fp then r\<lparr>br_page_id := pid\<rparr> else r) bs))"
  by (induction bs) (auto simp: image_iff)

lemma set_binding_bijective:
  "bindings_bijective s \<Longrightarrow> bindings_bijective (snd (set_binding s fp pid))"
  unfolding bindings_bijective_def set_binding_def
  using distinct_page_id_update[of "bindings s" fp pid]
    distinct_file_path_update[of "bindings s" fp pid]
  by (auto simp: list_ex_iff image_iff)

lemma find_path_after_update:
  "list_ex (\<lambda>r. br_file_path r = fp) bs \<Longrightarrow>
   find (\<lambda>r. br_file_path r = fp)
     (map (\<lambda>r. if br_file_path r = fp then r\<lparr>br_page_id := pid\<rparr> else r) bs)
   = Some \<lparr>br_file_path = fp, br_page_id = pid\<rparr>"
  by (induction bs) auto

lemma find_path_after_insert:
  "\<not> list_ex (\<lambda>r. br_file_path r = fp) bs \<Longrightarrow>
   find (\<lambda>r. br_file_path r = fp) (bs @ [\<lparr>br_file_path = fp, br_page_id = pid\<rparr>])
   = Some \<lparr>br_file_path = fp, br_page_id = pid\<rparr>"
  by (induction bs) auto

lemma set_binding_free_page:
  "\<not> list_ex (\<lambda>r. br_file_path r \<noteq> fp \<and> br_page_id r = pid) (bindings s) \<Longrightarrow>
   fst (set_binding s fp pid) = Inr () \<and>
   get_binding_for_path (snd (set_binding s fp pid)) fp
     = Some \<lparr>br_file_path = fp, br_page_id = pid\<rparr>"
  by (simp add: set_binding_def get_binding_for_path_def find_path_after_update
      find_path_after_insert)

text \<open>
  C3, as stated, fails: with \<open>a.md\<close> bound to page \<open>100\<close>, \<open>set_binding\<close> of \<open>b.md\<close> to
  page \<open>100\<close> does not succeed. It raises \<open>IntegrityError\<close>, and afterwards page \<open>100\<close>
  is still bound to \<open>a.md\<close> and \<open>a.md\<close> still has its binding.
\<close>

theorem set_binding_supersede_counterexample:
  "fst (set_binding example_store ''b.md'' ''100'') = Inl IntegrityError
   \<and> get_binding_for_page (snd (set_binding example_store ''b.md'' ''100'')) ''100''
       = Some \<lparr>br_file_path = ''a.md'', br_page_id = ''100''\<rparr>
   \<and> get_binding_for_path (snd (set_binding example_store ''b.md'' ''100'')) ''a.md''
       = Some \<lparr>br_file_path = ''a.md'', br_page_id = ''100''\<rparr>
   \<and> get_binding_for_path (snd (set_binding example_store ''b.md'' ''100'')) ''b.md'' = None"
  by (simp add: example_store_def set_binding_def get_binding_for_page_def
      get_binding_for_path_def)

text \<open>
  C3, amended: in every state store in which path P is bound to page id X, calling
  \<open>set_binding\<close> of a different path Q to X is rejected with an integrity error and
  leaves the store unchanged, so that X stays bound to P alone (in a store whose
  bindings are bijective, the lookup of X by page still returns the binding of P).
  Every call of \<open>set_binding\<close> keeps the bindings bijective, so at no point are two paths
  bound to the same page id; and binding a path to a page id that no other path holds
  succeeds and makes it the binding of that path.
\<close>

theorem set_binding_taken_page_rejected:
  "(get_binding_for_path s P = Some \<lparr>br_file_path = P, br_page_id = X\<rparr> \<and> Q \<noteq> P \<longrightarrow>
      set_binding s Q X = (Inl IntegrityError, s))
   \<and> (bindings_bijective s \<and>
        get_binding_for_path s P = Some \<lparr>br_file_path = P, br_page_id = X\<rparr> \<longrightarrow>
        get_binding_for_page s X = Some \<lparr>br_file_path = P, br_page_id = X\<rparr>)
   \<and> (bindings_bijective s2 \<longrightarrow> bindings_bijective (snd (set_binding s2 fp pid)))
   \<and> (\<not> list_ex (\<lambda>r. br_file_path r \<noteq> fp \<and> br_page_id r = pid) (bindings s2) \<longrightarrow>
        fst (set_binding s2 fp pid) = Inr () \<and>
        get_binding_for_path (snd (set_binding s2 fp pid)) fp
          = Some \<lparr>br_file_path = fp, br_page_id = pid\<rparr>)"
  using set_binding_rejected[of s P "\<lparr>br_file_path = P, br_page_id = X\<rparr>" X Q]
    bound_page_lookup[of s P "\<lparr>br_file_path = P, br_page_id = X\<rparr>"]
    set_binding_bijective[where s = s2 and fp = fp and pid = pid]
    set_binding_free_page[where s = s2 and fp = fp and pid = pid]
  by simp

theorem set_binding_taken_page_rejected_witness:
  "get_binding_for_path example_store ''a.md''
     = Some \<lparr>br_file_path = ''a.md'', br_page_id = ''100''\<rparr>
   \<and> ''b.md'' \<noteq> ''a.md''
   \<and> bindings_bijective example_store
   \<and> set_binding example_store ''b.md'' ''100'' = (Inl IntegrityError, example_store)
   \<and> get_binding_for_page example_store ''100''
       = Some \<lparr>br_file_path = ''a.md'', br_page_id = ''100''\<rparr>
   \<and> bindings_bijective (snd (set_binding example_store ''a.md'' ''200''))
   \<and> fst (set_binding example_store ''a.md'' ''200'') = Inr ()
   \<and> get_binding_for_path (snd (set_binding example_store ''a.md'' ''200'')) ''a.md''
       = Some \<lparr>br_file_path = ''a.md'', br_page_id = ''200''\<rparr>"
proof -
  have h1: "get_binding_for_path example_store ''a.md''
     = Some \<lparr>br_file_path = ''a.md'', br_page_id = ''100''\<rparr>"
    by (simp add: example_store_def get_binding_for_path_def)
  have h2: "bindings_bijective example_store"
    by (simp add: example_store_def bindings_bijective_def)
  have h3: "\<not> list_ex (\<lambda>r. br_file_path r \<noteq> ''a.md'' \<and> br_page_id r = ''200'')
              (bindings example_store)"
    by (simp add: example_store_def)
  show ?thesis
    using set_binding_taken_page_rejected
      [where s = example_store and P = "''a.md''" and X = "''100''" and Q = "''b.md''"
         and ?s2.0 = example_store and fp = "''a.md''" and pid = "''200''"]
      h1 h2 h3
    by simp
qed

section \<open>Properties of the link index\<close>

lemma find_app:
  "find P (xs @ ys) = (case find P xs of Some x \<Rightarrow> Some x | None \<Rightarrow> find P ys)"
  by (induction xs) auto

lemma index_notes_by_title:
  "li_by_title (index_notes index ns) k =
     (case find (\<lambda>n. normalize_title (vn_title n) = k) (rev ns) of
        Some n \<Rightarrow> Some n
      | None \<Rightarrow> li_by_title index k)"
  by (induction ns arbitrary: index) (auto simp: find_app split: option.splits)

lemma get_by_title_find:
  "get_by_title (LinkIndex root ns) t =
     find (\<lambda>n. normalize_title (vn_title n) = normalize_title t) (rev ns)"
  by (simp add: get_by_title_def LinkIndex_def index_notes_by_title split: option.splits)

lemma find_rev_last:
  "(\<forall>m\<in>set post. \<not> P m) \<Longrightarrow> P n \<Longrightarrow> find P (rev (pre @ n # post)) = Some n"
  by (induction post rule: rev_induct) (auto simp: find_app)
 
lemma find_rev_Some:
  "find P (rev xs) = Some m \<Longrightarrow> \<exists>pre post. xs = pre @ m # post \<and> P m \<and> (\<forall>x\<in>set post. \<not> P x)"
proof (induction xs rule: rev_induct)
  case Nil
  then show ?case by simp
next
  case (snoc x xs)
  show ?case
  proof (cases "P x")
    case True
    with snoc.prems have "m = x" by simp
    with True have "xs @ [x] = xs @ m # [] \<and> P m \<and> (\<forall>x\<in>set []. \<not> P x)" by simp
    then show ?thesis by blast
  next
    case False
    with snoc.prems have "find P (rev xs) = Some m" by simp
    from snoc.IH[OF this] obtain pre post where
      "xs = pre @ m # post" "P m" "\<forall>x\<in>set post. \<not> P x" by blast
    with False have "xs @ [x] = pre @ m # (post @ [x]) \<and> P m \<and> (\<forall>y\<in>set (post @ [x]). \<not> P y)"
      by simp
    then show ?thesis by blast
  qed
qed

text \<open>
  C9: the title dictionary of the link index keeps, for every normalized title, the note
  that comes last in the input order: \<open>get_by_title\<close> is the search, from the end of
  the note list, for the first note whose normalized title equals the normalized query.
  So when a note \<open>n\<close> is followed by no note of the same normalized title, every title
  that normalizes like the title of \<open>n\<close> resolves to \<open>n\<close>, in \<open>get_by_title\<close> and in
  the rewriting of a wikilink with that target; and a note returned by \<open>get_by_title\<close>
  is never followed by a note of the same normalized title, so earlier notes of a shared
  title are unreachable.
\<close>

theorem link_index_last_wins:
  "get_by_title (LinkIndex root ns) t =
     find (\<lambda>n. normalize_title (vn_title n) = normalize_title t) (rev ns)
   \<and> ((\<forall>m\<in>set post. normalize_title (vn_title m) \<noteq> normalize_title (vn_title n)) \<and>
       normalize_title t2 = normalize_title (vn_title n) \<longrightarrow>
       get_by_title (LinkIndex root (pre @ n # post)) t2 = Some n \<and>
       (CHR ''|'' \<notin> set (strip g) \<and> normalize_title (strip g) = normalize_title (vn_title n) \<longrightarrow>
          wikilink_replacer (LinkIndex root (pre @ n # post)) g =
            (''['' @ strip g @ ''](wikilink://'' @ escape_for_url (vn_title n) @ '')'',
             Some (vn_title n))))
   \<and> (get_by_title (LinkIndex root ns) t = Some m \<longrightarrow>
        (\<exists>before after. ns = before @ m # after \<and>
           normalize_title (vn_title m) = normalize_title t \<and>
           (\<forall>x\<in>set after. normalize_title (vn_title x) \<noteq> normalize_title t)))"
proof (intro conjI impI)
  show "get_by_title (LinkIndex root ns) t =
     find (\<lambda>n. normalize_title (vn_title n) = normalize_title t) (rev ns)"
    by (rule get_by_title_find)
next
  assume a: "(\<forall>m\<in>set post. normalize_title (vn_title m) \<noteq> normalize_title (vn_title n)) \<and>
       normalize_title t2 = normalize_title (vn_title n)"
  then have a1: "\<forall>m\<in>set post. \<not> normalize_title (vn_title m) = normalize_title (vn_title n)"
    and a2: "normalize_title t2 = normalize_title (vn_title n)"
    by blast+
  have last: "find (\<lambda>x. normalize_title (vn_title x) = normalize_title (vn_title n))
            (rev (pre @ n # post)) = Some n"
    by (rule find_rev_last[OF a1]) (rule refl)
  show "get_by_title (LinkIndex root (pre @ n # post)) t2 = Some n"
    unfolding get_by_title_find a2 by (rule last)
  assume b: "CHR ''|'' \<notin> set (strip g) \<and> normalize_title (strip g) = normalize_title (vn_title n)"
  then have b1: "CHR ''|'' \<notin> set (strip g)"
    and b2: "normalize_title (strip g) = normalize_title (vn_title n)"
    by blast+
  have hit: "get_by_title (LinkIndex root (pre @ n # post)) (strip g) = Some n"
    unfolding get_by_title_find b2 by (rule last)
  show "wikilink_replacer (LinkIndex root (pre @ n # post)) g =
            (''['' @ strip g @ ''](wikilink://'' @ escape_for_url (vn_title n) @ '')'',
             Some (vn_title n))"
    unfolding wikilink_replacer_def Let_def using b1 hit by simp
next
  assume "get_by_title (LinkIndex root ns) t = Some m"
  then have "find (\<lambda>n. normalize_title (vn_title n) = normalize_title t) (rev ns) = Some m"
    by (simp only: get_by_title_find)
  from find_rev_Some[OF this]
  show "\<exists>before after. ns = before @ m # after \<and>
           normalize_title (vn_title m) = normalize_title t \<and>
           (\<forall>x\<in>set after. normalize_title (vn_title x) \<noteq> normalize_title t)"
    by blast
qed

lemma ex_norm: "normalize_title ''setup   GUIDE '' = ''setup guide''" 
  "normalize_title ''Setup Guide'' = ''setup guide''" 
  "normalize_title ''Other'' = ''other''"
  "normalize_title '' SETUP guide '' = ''setup guide''"
  "strip '' SETUP guide '' = ''SETUP guide''"
  "normalize_title ''SETUP guide'' = ''setup guide''"
  "normalize_title ''Setup guide'' = ''setup guide''"
  by code_simp+

theorem link_index_last_wins_witness:
  "get_by_title (LinkIndex ''/vault'' example_notes) ''Setup guide''
     = Some (example_note ''c/setup guide.md'' ''setup   GUIDE '')
   \<and> wikilink_replacer (LinkIndex ''/vault'' example_notes) '' SETUP guide ''
     = (''[SETUP guide](wikilink://setup%20%20%20GUIDE%20)'', Some ''setup   GUIDE '')
   \<and> get_by_title (LinkIndex ''/vault'' example_notes) ''Setup guide''
     \<noteq> Some (example_note ''a/Setup Guide.md'' ''Setup Guide'')"
proof -
  let ?n = "example_note ''c/setup guide.md'' ''setup   GUIDE ''"
  let ?pre = "[example_note ''a/Setup Guide.md'' ''Setup Guide'']"
  let ?post = "[example_note ''b/Other.md'' ''Other'']"
  have t: "vn_title ?n = ''setup   GUIDE ''"
    by (simp add: example_note_def)
  have t': "vn_title (example_note ''b/Other.md'' ''Other'') = ''Other''"
    by (simp add: example_note_def)
  have h: "(\<forall>m\<in>set ?post. normalize_title (vn_title m) \<noteq> normalize_title (vn_title ?n)) \<and>
       normalize_title ''Setup guide'' = normalize_title (vn_title ?n)"
    unfolding t by (simp add: ex_norm t')
  have g: "CHR ''|'' \<notin> set (strip '' SETUP guide '') \<and>
       normalize_title (strip '' SETUP guide '') = normalize_title (vn_title ?n)"
    unfolding t by (simp add: ex_norm)
  have e: "escape_for_url ''setup   GUIDE '' = ''setup%20%20%20GUIDE%20''"
    by (simp add: escape_for_url_def replace_char_def)
  have ns: "example_notes = ?pre @ ?n # ?post"
    by (simp add: example_notes_def)
  have d: "?n \<noteq> example_note ''a/Setup Guide.md'' ''Setup Guide''"
    by (simp add: example_note_def)
  from link_index_last_wins
     [where root = "''/vault''" and ns = example_notes and t = "''Setup guide''"
        and pre = ?pre and n = ?n and post = ?post
        and ?t2.0 = "''Setup guide''" and g = "'' SETUP guide ''" and m = ?n] h g
  have "get_by_title (LinkIndex ''/vault'' (?pre @ ?n # ?post)) ''Setup guide'' = Some ?n
    \<and> wikilink_replacer (LinkIndex ''/vault'' (?pre @ ?n # ?post)) '' SETUP guide '' =
        (''['' @ strip '' SETUP guide '' @ ''](wikilink://'' @ escape_for_url (vn_title ?n) @ '')'',
         Some (vn_title ?n))"
    by blast
  then show ?thesis
    unfolding ns[symmetric] t e using d by (simp add: ex_norm)
qed

section \<open>Properties of the HTTP layer\<close>

lemma response_result_retryable:
  "(\<exists>exc. response_result f url res = Inl exc \<and> retry_if_exception_type exc) \<longleftrightarrow> spec_transient res"
  by (cases res)
     (auto simp: response_result_def spec_transient_def retry_if_exception_type_def
           split: response_body.splits json.splits option.splits)

lemma response_result_retryable_msg:
  "spec_transient res \<Longrightarrow> \<exists>msg. response_result f url res = Inl (ConfluenceRetryableError msg)"
  by (cases res) (auto simp: response_result_def spec_transient_def)

lemma response_result_permanent:
  "400 \<le> status_code resp \<Longrightarrow> status_code resp \<notin> {429, 502, 503, 504} \<Longrightarrow>
   \<exists>exc. response_result f url (Responded resp) = Inl exc \<and> \<not> retry_if_exception_type exc"
  by (auto simp: response_result_def retry_if_exception_type_def
           split: response_body.splits json.splits option.splits)

lemma send_request_step:
  "send_request c method url params data json_body headers file_parts e = (r, e') \<Longrightarrow>
   \<exists>x. exchanges e' = exchanges e @ [x] \<and> r = response_result (py_str c) url (snd x) \<and>
       (rq_method (fst x) = method \<and> rq_url (fst x) = url \<and> rq_data (fst x) = data)"
  by (auto simp: send_request_def Let_def split: prod.splits)

lemma retryer_trace:
  "(\<And>e r e'. fn e = (r, e') \<Longrightarrow>
             \<exists>x. exchanges e' = exchanges e @ [x] \<and> r = response_result f url (snd x) \<and> P x) \<Longrightarrow>
   retryer fn n e = (r, e') \<Longrightarrow> 1 \<le> n \<Longrightarrow> n \<le> 5 \<Longrightarrow>
     \<exists>new. exchanges e' = exchanges e @ new \<and> new \<noteq> [] \<and> length new \<le> 6 - n
        \<and> (\<forall>x\<in>set (butlast new). spec_transient (snd x))
        \<and> r = response_result f url (snd (last new))
        \<and> (spec_transient (snd (last new)) \<longrightarrow> length new = 6 - n)
        \<and> (\<forall>x\<in>set new. P x)"
proof (induction fn n e arbitrary: r e' rule: retryer.induct)
  case (1 fn n e)
  obtain r1 e1 where f1: "fn e = (r1, e1)" by (cases "fn e")
  from "1.prems"(1)[OF f1] obtain x where
    x: "exchanges e1 = exchanges e @ [x]" "r1 = response_result f url (snd x)" "P x" by blast
  show ?case
  proof (cases r1)
    case (Inr response)
    with "1.prems"(2) f1 have "r = r1" "e' = e1"
      by (simp_all add: retryer.simps[of fn n e])
    moreover from Inr x(2) have "\<not> spec_transient (snd x)"
      using response_result_retryable[of f url "snd x"] by auto
    ultimately show ?thesis using x "1.prems"(3,4)
      by (intro exI[of _ "[x]"]) simp
  next
    case (Inl exc)
    show ?thesis
    proof (cases "retry_if_exception_type exc")
      case False
      with Inl "1.prems"(2) f1 have "r = r1" "e' = e1"
        by (simp_all add: retryer.simps[of fn n e])
      moreover from False Inl x(2) have "\<not> spec_transient (snd x)"
        using response_result_retryable[of f url "snd x"] by auto
      ultimately show ?thesis using x "1.prems"(3,4)
        by (intro exI[of _ "[x]"]) simp
    next
      case True
      with Inl x(2) have tr: "spec_transient (snd x)"
        using response_result_retryable[of f url "snd x"] by auto
      show ?thesis
      proof (cases "n \<ge> stop_after_attempt")
        case stop: True
        with True Inl "1.prems"(2) f1 have "r = r1" "e' = e1"
          by (simp_all add: retryer.simps[of fn n e])
        moreover from stop "1.prems"(4) have "n = 5" by (simp add: stop_after_attempt_def)
        ultimately show ?thesis using x
          by (intro exI[of _ "[x]"]) simp
      next
        case go: False
        with True Inl "1.prems"(2) f1 have rec: "retryer fn (n + 1) e1 = (r, e')"
          by (simp add: retryer.simps[of fn n e])
        from go have n4: "n + 1 \<le> 5" "1 \<le> n + 1" by (simp_all add: stop_after_attempt_def)
        from True have nn: "\<not> \<not> retry_if_exception_type exc" by simp
        from "1.IH"[OF f1[symmetric] Inl nn go "1.prems"(1) rec n4(2) n4(1)]
        obtain new where new: "exchanges e' = exchanges e1 @ new" "new \<noteq> []"
          "length new \<le> 6 - (n + 1)" "\<forall>x\<in>set (butlast new). spec_transient (snd x)"
          "r = response_result f url (snd (last new))"
          "spec_transient (snd (last new)) \<longrightarrow> length new = 6 - (n + 1)"
          "\<forall>x\<in>set new. P x"
          by auto
        from new x tr n4 show ?thesis
          by (intro exI[of _ "x # new"]) (auto simp: butlast_def)
      qed
    qed
  qed
qed

lemma hd_in_butlast: "length xs \<noteq> 1 \<Longrightarrow> xs \<noteq> [] \<Longrightarrow> hd xs \<in> set (butlast xs)"
  by (cases xs) (auto simp: butlast_def)

text \<open>
  C4: a request makes between one and five calls of \<open>session.request\<close>, all with the
  same method and URL. Every call but the last ended in a transient failure (a transport
  error or one of the statuses 429, 502, 503, 504), so the client retries on nothing
  else. The result is what \<open>_send_request\<close> returned or raised for the last call,
  unchanged; when that last call was itself a transient failure, all five attempts were
  used and the error raised is a \<open>ConfluenceRetryableError\<close>. A first response with any
  other status of 400 or above ends the request after that one call with an error that
  the retry predicate rejects.
\<close>

theorem request_retry_contract:
  "request c method path params data json_body headers file_parts e = (r, e') \<longrightarrow>
     (\<exists>new. exchanges e' = exchanges e @ new
        \<and> 1 \<le> length new \<and> length new \<le> 5
        \<and> (\<forall>x\<in>set new. rq_method (fst x) = method \<and> rq_url (fst x) = base_url c @ path)
        \<and> (\<forall>x\<in>set (butlast new). spec_transient (snd x))
        \<and> r = response_result (py_str c) (base_url c @ path) (snd (last new))
        \<and> (spec_transient (snd (last new)) \<longrightarrow>
             length new = 5 \<and> (\<exists>msg. r = Inl (ConfluenceRetryableError msg)))
        \<and> (\<forall>resp. snd (hd new) = Responded resp \<and> 400 \<le> status_code resp \<and>
               status_code resp \<notin> {429, 502, 503, 504} \<longrightarrow>
             length new = 1 \<and> (\<exists>exc. r = Inl exc \<and> \<not> retry_if_exception_type exc)))"
proof
  assume a: "request c method path params data json_body headers file_parts e = (r, e')"
  let ?url = "base_url c @ path"
  let ?P = "\<lambda>x. rq_method (fst x) = method \<and> rq_url (fst x) = ?url \<and> rq_data (fst x) = data"
  from a have run: "retryer (send_request c method ?url params data json_body headers file_parts) 1 e = (r, e')"
    unfolding request_def Let_def .
  have "\<exists>new. exchanges e' = exchanges e @ new \<and> new \<noteq> [] \<and> length new \<le> 6 - 1
        \<and> (\<forall>x\<in>set (butlast new). spec_transient (snd x))
        \<and> r = response_result (py_str c) ?url (snd (last new))
        \<and> (spec_transient (snd (last new)) \<longrightarrow> length new = 6 - 1)
        \<and> (\<forall>x\<in>set new. ?P x)"
    by (rule retryer_trace[where P = ?P, OF _ run]) (auto dest: send_request_step)
  then obtain new where new: "exchanges e' = exchanges e @ new" "new \<noteq> []" "length new \<le> 5"
    "\<forall>x\<in>set (butlast new). spec_transient (snd x)"
    "r = response_result (py_str c) ?url (snd (last new))"
    "spec_transient (snd (last new)) \<longrightarrow> length new = 5"
    "\<forall>x\<in>set new. ?P x"
    by auto
  have len: "1 \<le> length new" using new(2) by (cases new) auto
  have exhausted: "spec_transient (snd (last new)) \<longrightarrow>
             length new = 5 \<and> (\<exists>msg. r = Inl (ConfluenceRetryableError msg))"
    using new(5,6) response_result_retryable_msg[of "snd (last new)" "py_str c" ?url] by auto
  have permanent: "\<forall>resp. snd (hd new) = Responded resp \<and> 400 \<le> status_code resp \<and>
               status_code resp \<notin> {429, 502, 503, 504} \<longrightarrow>
             length new = 1 \<and> (\<exists>exc. r = Inl exc \<and> \<not> retry_if_exception_type exc)"
  proof (intro allI impI)
    fix resp
    assume p: "snd (hd new) = Responded resp \<and> 400 \<le> status_code resp \<and>
               status_code resp \<notin> {429, 502, 503, 504}"
    then have nt: "\<not> spec_transient (snd (hd new))" by (simp add: spec_transient_def)
    have one: "length new = 1"
    proof (rule ccontr)
      assume "length new \<noteq> 1"
      from hd_in_butlast[OF this new(2)] new(4) nt show False by blast
    qed
    then have "last new = hd new" by (cases new) auto
    with p new(5) response_result_permanent[of resp "py_str c" ?url] one
    show "length new = 1 \<and> (\<exists>exc. r = Inl exc \<and> \<not> retry_if_exception_type exc)"
      by auto
  qed
  from new(1) len new(3) new(7) new(4) new(5) exhausted permanent
  show "\<exists>new. exchanges e' = exchanges e @ new
        \<and> 1 \<le> length new \<and> length new \<le> 5
        \<and> (\<forall>x\<in>set new. rq_method (fst x) = method \<and> rq_url (fst x) = base_url c @ path)
        \<and> (\<forall>x\<in>set (butlast new). spec_transient (snd x))
        \<and> r = response_result (py_str c) (base_url c @ path) (snd (last new))
        \<and> (spec_transient (snd (last new)) \<longrightarrow>
             length new = 5 \<and> (\<exists>msg. r = Inl (ConfluenceRetryableError msg)))
        \<and> (\<forall>resp. snd (hd new) = Responded resp \<and> 400 \<le> status_code resp \<and>
               status_code resp \<notin> {429, 502, 503, 504} \<longrightarrow>
             length new = 1 \<and> (\<exists>exc. r = Inl exc \<and> \<not> retry_if_exception_type exc))"
    by (intro exI[of _ new]) simp
qed

lemma example_exhausted:
  "fst (request (example_client 9 200) ''GET'' ''/x'' None None None None None example_env)
     = Inl (ConfluenceRetryableError ''Rate limit 503'')"
  "length (exchanges (snd (request (example_client 9 200) ''GET'' ''/x'' None None None None None example_env))) = 5"
  "fst (request (example_client 0 404) ''GET'' ''/x'' None None None None None example_env)
     = Inl (ConfluenceError ''HTTP 404 for https://example.atlassian.net/wiki/x: no'')"
  "length (exchanges (snd (request (example_client 0 404) ''GET'' ''/x'' None None None None None example_env))) = 1"
  "fst (request (example_client 2 200) ''GET'' ''/x'' None None None None None example_env)
     = Inr (example_response 200)"
  "length (exchanges (snd (request (example_client 2 200) ''GET'' ''/x'' None None None None None example_env))) = 3"
  by code_simp+


theorem request_retry_contract_witness:
  "fst (request (example_client 9 200) ''GET'' ''/x'' None None None None None example_env)
     = Inl (ConfluenceRetryableError ''Rate limit 503'')
   \<and> (\<exists>new. exchanges (snd (request (example_client 9 200) ''GET'' ''/x'' None None None None
                 None example_env)) = exchanges example_env @ new
         \<and> length new = 5
         \<and> (\<forall>x\<in>set (butlast new). spec_transient (snd x)))
   \<and> fst (request (example_client 0 404) ''GET'' ''/x'' None None None None None example_env)
     = Inl (ConfluenceError ''HTTP 404 for https://example.atlassian.net/wiki/x: no'')
   \<and> (\<exists>new. exchanges (snd (request (example_client 0 404) ''GET'' ''/x'' None None None None
                 None example_env)) = exchanges example_env @ new
         \<and> length new = 1)"
proof -
  let ?X9 = "request (example_client 9 200) ''GET'' ''/x'' None None None None None example_env"
  let ?X0 = "request (example_client 0 404) ''GET'' ''/x'' None None None None None example_env"
  have "?X9 = (fst ?X9, snd ?X9)" by simp
  with request_retry_contract[of "example_client 9 200" "''GET''" "''/x''" None None None None None
      example_env "fst ?X9" "snd ?X9"]
  obtain new where new: "exchanges (snd ?X9) = exchanges example_env @ new"
    "\<forall>x\<in>set (butlast new). spec_transient (snd x)"
    by blast
  from new(1) example_exhausted(2) have "length new = 5"
    by (simp add: example_env_def)
  with new have nine: "\<exists>new. exchanges (snd ?X9) = exchanges example_env @ new
         \<and> length new = 5 \<and> (\<forall>x\<in>set (butlast new). spec_transient (snd x))"
    by blast
  have "?X0 = (fst ?X0, snd ?X0)" by simp
  with request_retry_contract[of "example_client 0 404" "''GET''" "''/x''" None None None None None
      example_env "fst ?X0" "snd ?X0"]
  obtain new0 where new0: "exchanges (snd ?X0) = exchanges example_env @ new0"
    by blast
  from new0 example_exhausted(4) have "length new0 = 1"
    by (simp add: example_env_def)
  with new0 have zero: "\<exists>new. exchanges (snd ?X0) = exchanges example_env @ new \<and> length new = 1"
    by blast
  from nine zero example_exhausted(1,3) show ?thesis by blast
qed

lemma no_labels_left:
  "filter (\<lambda>label. label \<noteq> []) (remdups labels) = [] \<longleftrightarrow> set labels \<subseteq> {[]}"
  by (auto simp: filter_empty_conv)

text \<open>
  C10: \<open>update_labels\<close> removes duplicates and empty strings from the labels. When no
  non-empty label is given it returns without calling \<open>session.request\<close>: the state,
  with its log of calls, is unchanged. Otherwise a request is sent (one to five calls
  under the retry policy), each call a POST to the label URL of the page whose body
  lists the distinct non-empty labels.
\<close>

theorem update_labels_skips_empty:
  "(set labels \<subseteq> {[]} \<longrightarrow> update_labels c page_id labels e = (Inr (), e))
   \<and> (\<not> set labels2 \<subseteq> {[]} \<and> update_labels c page_id labels2 e = (r, e') \<longrightarrow>
        (\<exists>new names. exchanges e' = exchanges e @ new \<and> 1 \<le> length new \<and> length new \<le> 5
           \<and> distinct names \<and> set names = set labels2 - {[]}
           \<and> (\<forall>x\<in>set new.
                 rq_method (fst x) = ''POST'' \<and>
                 rq_url (fst x) = base_url c @ ''/rest/api/content/'' @ page_id @ ''/label'' \<and>
                 rq_data (fst x) =
                   Some (JList (map (\<lambda>label. JObject [(''prefix'', JStr ''global''),
                                                       (''name'', JStr label)]) names)))))"
proof (intro conjI impI)
  assume "set labels \<subseteq> {[]}"
  then have "filter (\<lambda>label. label \<noteq> []) (remdups labels) = []"
    by (simp only: no_labels_left)
  then show "update_labels c page_id labels e = (Inr (), e)"
    by (simp add: update_labels_def)
next
  assume a: "\<not> set labels2 \<subseteq> {[]} \<and> update_labels c page_id labels2 e = (r, e')"
  let ?names = "filter (\<lambda>label. label \<noteq> []) (remdups labels2)"
  let ?payload = "JList (map (\<lambda>label. JObject [(''prefix'', JStr ''global''),
                                                (''name'', JStr label)]) ?names)"
  let ?url = "base_url c @ ''/rest/api/content/'' @ page_id @ ''/label''"
  let ?fn = "send_request c ''POST'' ?url None (Some ?payload) None
               (Some [''Content-Type'' \<mapsto> ''application/json'']) None"
  let ?P = "\<lambda>x. rq_method (fst x) = ''POST'' \<and> rq_url (fst x) = ?url \<and>
                 rq_data (fst x) = Some ?payload"
  from a have ne: "?names \<noteq> []" by (simp only: no_labels_left) simp
  obtain r1 e1 where run: "retryer ?fn 1 e = (r1, e1)" by (cases "retryer ?fn 1 e")
  with a ne have e1: "e' = e1"
    by (auto simp: update_labels_def request_def Let_def split: sum.splits)
  have "\<exists>new. exchanges e1 = exchanges e @ new \<and> new \<noteq> [] \<and> length new \<le> 6 - 1
        \<and> (\<forall>x\<in>set (butlast new). spec_transient (snd x))
        \<and> r1 = response_result (py_str c) ?url (snd (last new))
        \<and> (spec_transient (snd (last new)) \<longrightarrow> length new = 6 - 1)
        \<and> (\<forall>x\<in>set new. ?P x)"
    by (rule retryer_trace[where P = ?P, OF _ run]) (auto dest: send_request_step)
  then obtain new where new: "exchanges e1 = exchanges e @ new" "new \<noteq> []" "length new \<le> 5"
    "\<forall>x\<in>set new. ?P x"
    by auto
  have len: "1 \<le> length new" using new(2) by (cases new) auto
  have names: "distinct ?names" "set ?names = set labels2 - {[]}" by auto
  from new(1,3,4) len names e1
  show "\<exists>new names. exchanges e' = exchanges e @ new \<and> 1 \<le> length new \<and> length new \<le> 5
           \<and> distinct names \<and> set names = set labels2 - {[]}
           \<and> (\<forall>x\<in>set new.
                 rq_method (fst x) = ''POST'' \<and>
                 rq_url (fst x) = base_url c @ ''/rest/api/content/'' @ page_id @ ''/label'' \<and>
                 rq_data (fst x) =
                   Some (JList (map (\<lambda>label. JObject [(''prefix'', JStr ''global''),
                                                       (''name'', JStr label)]) names)))"
    by (intro exI[of _ new] exI[of _ ?names]) simp
qed

lemma example_labels:
  "length (exchanges (snd (update_labels (example_client 0 200) ''12'' [''a'', [], ''b'', ''a''] example_env))) = 1"
  "fst (update_labels (example_client 0 200) ''12'' [''a'', [], ''b'', ''a''] example_env) = Inr ()"
  by code_simp+

theorem update_labels_skips_empty_witness:
  "set [[], []] \<subseteq> {[]::string}
   \<and> update_labels (example_client 0 200) ''12'' [[], []] example_env = (Inr (), example_env)
   \<and> \<not> set [''a'', [], ''b'', ''a''] \<subseteq> {[]::string}
   \<and> (\<exists>new names.
         exchanges (snd (update_labels (example_client 0 200) ''12'' [''a'', [], ''b'', ''a'']
                       example_env)) = exchanges example_env @ new
         \<and> length new = 1 \<and> distinct names \<and> set names = {''a'', ''b''}
         \<and> rq_data (fst (hd new)) =
             Some (JList (map (\<lambda>label. JObject [(''prefix'', JStr ''global''),
                                                 (''name'', JStr label)]) names)))"
proof -
  let ?U = "update_labels (example_client 0 200) ''12'' [''a'', [], ''b'', ''a''] example_env"
  have h1: "set [[], []] \<subseteq> {[]::string}" by simp
  have h2: "\<not> set [''a'', [], ''b'', ''a''] \<subseteq> {[]::string}" by simp
  have h3: "?U = (fst ?U, snd ?U)" by simp
  note inst = update_labels_skips_empty
      [where labels = "[[], []]" and c = "example_client 0 200" and page_id = "''12''"
         and e = example_env and ?labels2.0 = "[''a'', [], ''b'', ''a'']"
         and r = "fst ?U" and e' = "snd ?U"]
  from inst h1 have skip:
    "update_labels (example_client 0 200) ''12'' [[], []] example_env = (Inr (), example_env)"
    by blast
  from inst h2 h3 obtain new names where nn:
    "exchanges (snd ?U) = exchanges example_env @ new" "distinct names"
    "set names = set [''a'', [], ''b'', ''a''] - {[]}"
    "\<forall>x\<in>set new. rq_data (fst x) =
        Some (JList (map (\<lambda>label. JObject [(''prefix'', JStr ''global''),
                                            (''name'', JStr label)]) names))"
    by blast
  from nn(1) example_labels(1) have l1: "length new = 1" by (simp add: example_env_def)
  then have "hd new \<in> set new" by (cases new) auto
  with nn(4) have d: "rq_data (fst (hd new)) =
        Some (JList (map (\<lambda>label. JObject [(''prefix'', JStr ''global''),
                                            (''name'', JStr label)]) names))"
    by blast
  from nn(3) have s: "set names = {''a'', ''b''}" by auto
  from h1 skip h2 nn(1,2) l1 s d show ?thesis by blast
qed

section \<open>Properties of the page hierarchy manager\<close>

lemma ensure_page_manager:
  assumes "ensure_page st c title parent_id dry_run m e = (r, m1, e1)"
  shows "(cache m (title, parent_id) \<noteq> None \<and> m1 = m \<and> e1 = e \<and> r = Inr (the (cache m (title, parent_id))))
       \<or> (cache m (title, parent_id) = None \<and> (\<exists>exc. r = Inl exc) \<and> m1 = m \<and> \<not> dry_run)
       \<or> (cache m (title, parent_id) = None \<and> root_page m1 = root_page m \<and>
           (\<exists>page_id. r = Inr page_id \<and> cache m1 = (cache m)((title, parent_id) \<mapsto> page_id)))"
proof (cases "cache m (title, parent_id)")
  case (Some pid)
  with assms show ?thesis by (auto simp: ensure_page_def)
next
  case None
  show ?thesis
  proof (cases dry_run)
    case True
    with None assms show ?thesis
      by (auto simp: ensure_page_def synthetic_id_def Let_def)
  next
    case False
    obtain r2 e2 where f: "call_find_page c e (confluence_space_key st) title parent_id = (r2, e2)"
      by (cases "call_find_page c e (confluence_space_key st) title parent_id")
    show ?thesis
    proof (cases r2)
      case (Inl exc)
      with None False f assms show ?thesis by (auto simp: ensure_page_def)
    next
      case (Inr found)
      show ?thesis
      proof (cases found)
        case (Some existing)
        with Inr None False f assms show ?thesis by (auto simp: ensure_page_def)
      next
        case nf: None
        obtain r3 e3 where g: "call_create_page c e2 (confluence_space_key st) title
                         ''<p>Folder placeholder</p>'' parent_id [] = (r3, e3)"
          by (cases "call_create_page c e2 (confluence_space_key st) title
                         ''<p>Folder placeholder</p>'' parent_id []")
        show ?thesis
        proof (cases r3)
          case (Inl exc)
          with nf Inr None False f g assms show ?thesis by (auto simp: ensure_page_def)
        next
          case r: (Inr new_page)
          with nf Inr None False f g assms show ?thesis by (auto simp: ensure_page_def)
        qed
      qed
    qed
  qed
qed



lemma ensure_page_cached:
  "ensure_page st c title parent_id dry_run m e = (Inr page_id, m1, e1) \<Longrightarrow>
   cache m1 (title, parent_id) = Some page_id"
  by (drule ensure_page_manager) auto

lemma ensure_page_hit:
  "cache m (title, parent_id) = Some page_id \<Longrightarrow>
   ensure_page st c title parent_id dry_run m e = (Inr page_id, m, e)"
  by (simp add: ensure_page_def)

lemma ensure_page_keeps:
  "ensure_page st c title parent_id dry_run m e = (r, m1, e1) \<Longrightarrow>
   cache m k = Some v \<Longrightarrow> cache m1 k = Some v"
  by (drule ensure_page_manager) auto

lemma ensure_page_root:
  "ensure_page st c title parent_id dry_run m e = (r, m1, e1) \<Longrightarrow> root_page m1 = root_page m"
  by (drule ensure_page_manager) auto

lemma ensure_chain_keeps:
  "ensure_chain st c dry_run titles parent_id m e = (r, m1, e1) \<Longrightarrow>
   cache m k = Some v \<Longrightarrow> cache m1 k = Some v"
proof (induction titles arbitrary: parent_id m e)
  case Nil
  then show ?case by simp
next
  case (Cons t ts)
  obtain r2 m2 e2 where s: "ensure_page st c t parent_id dry_run m e = (r2, m2, e2)"
    by (cases "ensure_page st c t parent_id dry_run m e") auto
  from ensure_page_keeps[OF s Cons.prems(2)] have k: "cache m2 k = Some v" .
  show ?case
  proof (cases r2)
    case (Inl a)
    with s Cons.prems(1) k show ?thesis by simp
  next
    case (Inr pid)
    with s Cons.prems(1) have "ensure_chain st c dry_run ts (Some pid) m2 e2 = (r, m1, e1)"
      by simp
    from Cons.IH[OF this k] show ?thesis .
  qed
qed

lemma ensure_chain_root:
  "ensure_chain st c dry_run titles parent_id m e = (r, m1, e1) \<Longrightarrow> root_page m1 = root_page m"
proof (induction titles arbitrary: parent_id m e)
  case Nil
  then show ?case by simp
next
  case (Cons t ts)
  obtain r2 m2 e2 where s: "ensure_page st c t parent_id dry_run m e = (r2, m2, e2)"
    by (cases "ensure_page st c t parent_id dry_run m e") auto
  from ensure_page_root[OF s] have k: "root_page m2 = root_page m" .
  show ?case
  proof (cases r2)
    case (Inl a)
    with s Cons.prems(1) k show ?thesis by simp
  next
    case (Inr pid)
    with s Cons.prems(1) have "ensure_chain st c dry_run ts (Some pid) m2 e2 = (r, m1, e1)"
      by simp
    from Cons.IH[OF this] k show ?thesis by simp
  qed
qed

lemma ensure_root_memo:
  "root_page m = Some p \<Longrightarrow> ensure_root st c dry_run m e = (Inr p, m, e)"
  by (simp add: ensure_root_def)

lemma resolve_parent_rooted:
  "root_page m = Some p \<Longrightarrow>
   resolve_parent st c note dry_run m e =
     ensure_chain st c dry_run (title_chain note) (Some (rp_page_id p)) m e"
  by (simp add: resolve_parent_def ensure_root_memo Let_def title_chain_def)

lemma resolve_parent_keeps:
  assumes "resolve_parent st c note dry_run m e = (r, m1, e1)" "root_page m \<noteq> None"
    "cache m k = Some v"
  shows "cache m1 k = Some v \<and> root_page m1 = root_page m"
proof -
  from assms(2) obtain p where p: "root_page m = Some p" by auto
  from assms(1) have "ensure_chain st c dry_run (title_chain note) (Some (rp_page_id p)) m e = (r, m1, e1)"
    by (simp only: resolve_parent_rooted[OF p])
  from ensure_chain_keeps[OF this assms(3)] ensure_chain_root[OF this] show ?thesis by simp
qed

lemma ensure_page_dry:
  "\<exists>page_id m1. ensure_page st c title parent_id True m e = (Inr page_id, m1, e)"
  by (auto simp: ensure_page_def synthetic_id_def Let_def split: option.splits)

lemma ensure_chain_dry:
  "\<exists>pid m1. ensure_chain st c True titles parent_id m e = (Inr pid, m1, e)"
proof (induction titles arbitrary: parent_id m)
  case Nil
  then show ?case by simp
next
  case (Cons t ts)
  from ensure_page_dry[of st c t parent_id m e] obtain page_id m1 where
    s: "ensure_page st c t parent_id True m e = (Inr page_id, m1, e)" by blast
  from Cons.IH[of "Some page_id" m1] s show ?case by simp
qed

lemma ensure_chain_again:
  "ensure_chain st c dry_run titles parent_id m e = (Inr pid, m1, e1) \<Longrightarrow>
   (\<And>k v. cache m1 k = Some v \<Longrightarrow> cache m2 k = Some v) \<Longrightarrow>
   ensure_chain st c dry_run2 titles parent_id m2 e2 = (Inr pid, m2, e2)"
proof (induction titles arbitrary: parent_id m e)
  case Nil
  then show ?case by simp
next
  case (Cons t ts)
  obtain r3 m3 e3 where s: "ensure_page st c t parent_id dry_run m e = (r3, m3, e3)"
    by (cases "ensure_page st c t parent_id dry_run m e") auto
  show ?case
  proof (cases r3)
    case (Inl a)
    with s Cons.prems(1) show ?thesis by simp
  next
    case (Inr page_id)
    with s Cons.prems(1) have rest: "ensure_chain st c dry_run ts (Some page_id) m3 e3 = (Inr pid, m1, e1)"
      by simp
    from s Inr have "cache m3 (t, parent_id) = Some page_id"
      by (simp add: ensure_page_cached)
    from ensure_chain_keeps[OF rest this] have "cache m1 (t, parent_id) = Some page_id" .
    then have "cache m2 (t, parent_id) = Some page_id" by (rule Cons.prems(2))
    then have hit: "ensure_page st c t parent_id dry_run2 m2 e2 = (Inr page_id, m2, e2)"
      by (rule ensure_page_hit)
    from Cons.IH[OF rest Cons.prems(2)] hit show ?thesis by simp
  qed
qed

lemma ensure_root_dry:
  "\<exists>p m1. ensure_root st c True m e = (Inr p, m1, e) \<and> root_page m1 = Some p"
  by (auto simp: ensure_root_def synthetic_id_def Let_def split: option.splits)

lemma resolve_parent_dry_twice:
  assumes "resolve_parent st c note True m e = (r, m1, e1)"
  shows "e1 = e \<and> (\<exists>parent_id. r = Inr parent_id \<and>
            resolve_parent st c note True m1 e1 = (Inr parent_id, m1, e1))"
proof -
  from ensure_root_dry[of st c m e] obtain p m0 where
    root: "ensure_root st c True m e = (Inr p, m0, e)" "root_page m0 = Some p" by blast
  from assms root(1) have chain:
    "ensure_chain st c True (title_chain note) (Some (rp_page_id p)) m0 e = (r, m1, e1)"
    by (simp add: resolve_parent_def Let_def title_chain_def)
  from ensure_chain_dry[of st c "title_chain note" "Some (rp_page_id p)" m0 e] chain
  obtain pid where r: "r = Inr pid" "e1 = e" by auto
  from ensure_chain_root[OF chain] root(2) have root1: "root_page m1 = Some p" by simp
  from chain r have chain': 
    "ensure_chain st c True (title_chain note) (Some (rp_page_id p)) m0 e = (Inr pid, m1, e1)"
    by simp
  have "ensure_chain st c True (title_chain note) (Some (rp_page_id p)) m1 e1 = (Inr pid, m1, e1)"
    by (rule ensure_chain_again[OF chain']) simp
  with root1 have "resolve_parent st c note True m1 e1 = (Inr pid, m1, e1)"
    by (simp only: resolve_parent_rooted)
  with r show ?thesis by simp
qed


text \<open>
  C5: once \<open>_ensure_page\<close> has resolved a pair of title and parent id, resolving the
  pair again returns the same page id and changes neither the manager nor the
  environment, so no remote call is made, in either mode. The cache entry and the
  memoized root survive every later \<open>resolve_parent\<close> of the run, so this holds for
  any later resolution of the pair as well. In a dry run \<open>resolve_parent\<close> always
  returns, makes no remote call and no state write, and a second call for the same note
  returns the same id and changes nothing.
\<close>

theorem hierarchy_resolution_cached:
  "(ensure_page st c title parent_id dry_run m e = (Inr page_id, m1, e1) \<longrightarrow>
      ensure_page st c title parent_id dry_run2 m1 e2 = (Inr page_id, m1, e2))
   \<and> (root_page m3 \<noteq> None \<and> cache m3 (title3, parent_id3) = Some page_id3 \<and>
       resolve_parent st c note3 dry_run3 m3 e3 = (r3, m4, e4) \<longrightarrow>
       root_page m4 \<noteq> None \<and> cache m4 (title3, parent_id3) = Some page_id3 \<and>
       ensure_page st c title3 parent_id3 dry_run4 m4 e5 = (Inr page_id3, m4, e5))
   \<and> (resolve_parent st c note5 True m5 e6 = (r5, m6, e7) \<longrightarrow>
       e7 = e6 \<and>
       (\<exists>parent. r5 = Inr parent \<and> resolve_parent st c note5 True m6 e7 = (Inr parent, m6, e7)))"
proof (intro conjI impI)
  assume "ensure_page st c title parent_id dry_run m e = (Inr page_id, m1, e1)"
  then have "cache m1 (title, parent_id) = Some page_id" by (rule ensure_page_cached)
  then show "ensure_page st c title parent_id dry_run2 m1 e2 = (Inr page_id, m1, e2)"
    by (rule ensure_page_hit)
next
  assume a: "root_page m3 \<noteq> None \<and> cache m3 (title3, parent_id3) = Some page_id3 \<and>
       resolve_parent st c note3 dry_run3 m3 e3 = (r3, m4, e4)"
  then have k: "cache m4 (title3, parent_id3) = Some page_id3 \<and> root_page m4 = root_page m3"
    using resolve_parent_keeps[of st c note3 dry_run3 m3 e3 r3 m4 e4] by blast
  with a show "root_page m4 \<noteq> None" by simp
  from k show "cache m4 (title3, parent_id3) = Some page_id3" by simp
  then show "ensure_page st c title3 parent_id3 dry_run4 m4 e5 = (Inr page_id3, m4, e5)"
    by (rule ensure_page_hit)
next
  assume "resolve_parent st c note5 True m5 e6 = (r5, m6, e7)"
  from resolve_parent_dry_twice[OF this]
  show "e7 = e6" and
    "\<exists>parent. r5 = Inr parent \<and> resolve_parent st c note5 True m6 e7 = (Inr parent, m6, e7)"
    by blast+
qed

lemma ex_first:
  "fst (ensure_page example_settings example_remote ''Guides'' (Some ''1'') False new_manager synced_env) = Inr ''2''"
  by code_simp

lemma ex_dry:
  "fst (resolve_parent example_settings example_remote guide_note True new_manager synced_env)
     = Inr (Some ''dryrun-2-guides'')"
  by code_simp

lemma ex_root:
  "root_page (fst (snd (resolve_parent example_settings example_remote guide_note True new_manager synced_env))) \<noteq> None"
  by code_simp

lemma ex_cached:
  "cache (fst (snd (resolve_parent example_settings example_remote guide_note True new_manager synced_env))) (''Guides'', Some ''dryrun-1-root'') = Some ''dryrun-2-guides''"
  by code_simp

theorem hierarchy_resolution_cached_witness:
  "fst (ensure_page example_settings example_remote ''Guides'' (Some ''1'') False new_manager
          synced_env) = Inr ''2''
   \<and> fst (ensure_page example_settings example_remote ''Guides'' (Some ''1'') False
          (fst (snd (ensure_page example_settings example_remote ''Guides'' (Some ''1'') False
                       new_manager synced_env)))
          (snd (snd (ensure_page example_settings example_remote ''Guides'' (Some ''1'') False
                       new_manager synced_env)))) = Inr ''2''
   \<and> remote_calls (snd (snd (ensure_page example_settings example_remote ''Guides'' (Some ''1'')
          False
          (fst (snd (ensure_page example_settings example_remote ''Guides'' (Some ''1'') False
                       new_manager synced_env)))
          (snd (snd (ensure_page example_settings example_remote ''Guides'' (Some ''1'') False
                       new_manager synced_env))))))
     = remote_calls (snd (snd (ensure_page example_settings example_remote ''Guides''
          (Some ''1'') False new_manager synced_env)))
   \<and> fst (resolve_parent example_settings example_remote guide_note True new_manager synced_env)
       = Inr (Some ''dryrun-2-guides'')
   \<and> fst (resolve_parent example_settings example_remote guide_note True
            (fst (snd (resolve_parent example_settings example_remote guide_note True
                         new_manager synced_env)))
            (snd (snd (resolve_parent example_settings example_remote guide_note True
                         new_manager synced_env))))
       = Inr (Some ''dryrun-2-guides'')
   \<and> fst (ensure_page example_settings example_remote ''Guides'' (Some ''dryrun-1-root'') False
            (fst (snd (resolve_parent example_settings example_remote guide_note True
               (fst (snd (resolve_parent example_settings example_remote guide_note True
                         new_manager synced_env)))
               synced_env)))
            synced_env)
       = Inr ''dryrun-2-guides''"
proof -
  let ?P = "ensure_page example_settings example_remote ''Guides'' (Some ''1'') False new_manager
              synced_env"
  let ?R = "resolve_parent example_settings example_remote guide_note True new_manager synced_env"
  let ?m = "fst (snd ?R)"
  let ?R2 = "resolve_parent example_settings example_remote guide_note True ?m synced_env"
  have p: "?P = (Inr ''2'', fst (snd ?P), snd (snd ?P))"
    using ex_first by (cases ?P) simp
  have r: "?R = (fst ?R, ?m, snd (snd ?R))" by simp
  have r2: "?R2 = (fst ?R2, fst (snd ?R2), snd (snd ?R2))" by simp
  note inst = hierarchy_resolution_cached
    [where st = example_settings and c = example_remote and title = "''Guides''"
       and parent_id = "Some ''1''" and dry_run = False and m = new_manager and e = synced_env
       and page_id = "''2''" and ?m1.0 = "fst (snd ?P)" and ?e1.0 = "snd (snd ?P)"
       and ?dry_run2.0 = False and ?e2.0 = "snd (snd ?P)"
       and ?m3.0 = ?m and ?title3.0 = "''Guides''" and ?parent_id3.0 = "Some ''dryrun-1-root''"
       and ?page_id3.0 = "''dryrun-2-guides''" and ?note3.0 = guide_note and ?dry_run3.0 = True
       and ?e3.0 = synced_env and ?r3.0 = "fst ?R2" and ?m4.0 = "fst (snd ?R2)"
       and ?e4.0 = "snd (snd ?R2)" and ?dry_run4.0 = False and ?e5.0 = synced_env
       and ?note5.0 = guide_note and ?m5.0 = new_manager and ?e6.0 = synced_env
       and ?r5.0 = "fst ?R" and ?m6.0 = ?m and ?e7.0 = "snd (snd ?R)"]
  from inst p have again:
    "ensure_page example_settings example_remote ''Guides'' (Some ''1'') False (fst (snd ?P))
       (snd (snd ?P)) = (Inr ''2'', fst (snd ?P), snd (snd ?P))"
    by blast
  from inst ex_root ex_cached r2 have later:
    "ensure_page example_settings example_remote ''Guides'' (Some ''dryrun-1-root'') False
       (fst (snd ?R2)) synced_env = (Inr ''dryrun-2-guides'', fst (snd ?R2), synced_env)"
    by blast
  from inst r have dry: "snd (snd ?R) = synced_env \<and>
       (\<exists>parent. fst ?R = Inr parent \<and>
          resolve_parent example_settings example_remote guide_note True ?m (snd (snd ?R))
            = (Inr parent, ?m, snd (snd ?R)))"
    by blast
  then obtain parent where pr: "fst ?R = Inr parent"
    and tw: "resolve_parent example_settings example_remote guide_note True ?m (snd (snd ?R))
            = (Inr parent, ?m, snd (snd ?R))"
    by blast
  from pr ex_dry have "parent = Some ''dryrun-2-guides''" by simp
  with tw have dry2:
    "resolve_parent example_settings example_remote guide_note True ?m (snd (snd ?R))
            = (Inr (Some ''dryrun-2-guides''), ?m, snd (snd ?R))"
    by (simp only:)
  have g2: "fst (ensure_page example_settings example_remote ''Guides'' (Some ''1'') False
              (fst (snd ?P)) (snd (snd ?P))) = Inr ''2''"
    by (simp only: again fst_conv)
  have g3: "remote_calls (snd (snd (ensure_page example_settings example_remote ''Guides''
              (Some ''1'') False (fst (snd ?P)) (snd (snd ?P))))) = remote_calls (snd (snd ?P))"
    by (simp only: again snd_conv)
  have g5: "fst (resolve_parent example_settings example_remote guide_note True ?m
              (snd (snd ?R))) = Inr (Some ''dryrun-2-guides'')"
    by (simp only: dry2 fst_conv)
  have g6: "fst (ensure_page example_settings example_remote ''Guides'' (Some ''dryrun-1-root'')
              False (fst (snd ?R2)) synced_env) = Inr ''dryrun-2-guides''"
    by (simp only: later fst_conv)
  from ex_first g2 g3 ex_dry g5 g6 show ?thesis by (intro conjI)
qed

section \<open>Properties of the sync engine\<close>



lemma has_conflict_same_hash:
  "has_conflict (Some fr) page_record (Some page) (fr_sha256 fr) = Inr False"
  by (cases page_record) auto

lemma call_get_page_reads:
  "call_get_page c e page_id = (r, e1) \<Longrightarrow> reads_only e e1 [GetPage page_id]"
  by (auto simp: call_get_page_def reads_only_def split: prod.splits)

lemma call_find_page_reads:
  "call_find_page c e space_key title parent_id = (r, e1) \<Longrightarrow>
   reads_only e e1 [FindPage space_key title parent_id]"
  by (auto simp: call_find_page_def reads_only_def split: prod.splits)

lemma reads_only_trans:
  "reads_only e e1 xs \<Longrightarrow> reads_only e1 e2 ys \<Longrightarrow> reads_only e e2 (xs @ ys)"
  by (auto simp: reads_only_def)

lemma search_reads:
  assumes "(case call_find_page c e space_key title parent_id of
              (Inl exc, e2) \<Rightarrow> (Inl exc, e2)
            | (Inr page, e2) \<Rightarrow> (Inr (page, binding), e2)) = (r, e1)"
  shows "reads_only e e1 [FindPage space_key title parent_id]"
proof -
  obtain r2 e2 where f: "call_find_page c e space_key title parent_id = (r2, e2)"
    by (cases "call_find_page c e space_key title parent_id")
  with assms have "e1 = e2" by (cases r2) auto
  with call_find_page_reads[OF f] show ?thesis by simp
qed

lemma lookup_by_binding_or_search_reads:
  assumes "lookup_by_binding_or_search st c note parent_id e = (r, e1)"
  shows "\<exists>new. reads_only e e1 new \<and>
           (\<forall>exc. r = Inl exc \<longrightarrow> new \<noteq> [] \<and> (\<exists>s t p. last new = FindPage s t p))"
proof (cases "get_binding_for_path (state e) (vn_relative_path note)")
  case None
  with assms have s: "(case call_find_page c e (confluence_space_key st) (note_title note) parent_id of
              (Inl exc, e2) \<Rightarrow> (Inl exc, e2)
            | (Inr page, e2) \<Rightarrow> (Inr (page, None), e2)) = (r, e1)"
    by (simp add: lookup_by_binding_or_search_def)
  from search_reads[OF s] show ?thesis
    by (intro exI[of _ "[FindPage (confluence_space_key st) (note_title note) parent_id]"]) simp
next
  case (Some b)
  obtain r2 e2 where g: "call_get_page c e (br_page_id b) = (r2, e2)"
    by (cases "call_get_page c e (br_page_id b)")
  note rg = call_get_page_reads[OF g]
  show ?thesis
  proof (cases r2)
    case (Inr page)
    with Some g assms have "e1 = e2" "r = Inr (Some page, Some b)"
      by (auto simp: lookup_by_binding_or_search_def)
    with rg show ?thesis by (intro exI[of _ "[GetPage (br_page_id b)]"]) simp
  next
    case (Inl exc)
    with Some g assms have s: "(case call_find_page c e2 (confluence_space_key st) (note_title note) parent_id of
              (Inl exc, e3) \<Rightarrow> (Inl exc, e3)
            | (Inr page, e3) \<Rightarrow> (Inr (page, Some b), e3)) = (r, e1)"
      by (simp add: lookup_by_binding_or_search_def)
    from reads_only_trans[OF rg search_reads[OF s]] show ?thesis
      by (intro exI[of _ "[GetPage (br_page_id b)] @
            [FindPage (confluence_space_key st) (note_title note) parent_id]"]) simp
  qed
qed

lemma lookup_target_page_reads:
  assumes "lookup_target_page st c note parent_id e = (r, e1)"
  shows "\<exists>new. reads_only e e1 new \<and>
           (\<forall>exc. r = Inl exc \<longrightarrow> new \<noteq> [] \<and> (\<exists>s t p. last new = FindPage s t p))"
proof (cases "case fm_page_id (vn_frontmatter note) of None \<Rightarrow> True | Some p \<Rightarrow> p = []")
  case True
  with assms have "lookup_by_binding_or_search st c note parent_id e = (r, e1)"
    by (auto simp: lookup_target_page_def split: option.splits)
  then show ?thesis by (rule lookup_by_binding_or_search_reads)
next
  case False
  then obtain page_id where pid: "fm_page_id (vn_frontmatter note) = Some page_id" "page_id \<noteq> []"
    by (auto split: option.splits)
  obtain r2 e2 where g: "call_get_page c e page_id = (r2, e2)"
    by (cases "call_get_page c e page_id")
  note rg = call_get_page_reads[OF g]
  show ?thesis
  proof (cases r2)
    case (Inr page)
    with pid g assms have "e1 = e2" "\<exists>x. r = Inr x"
      by (auto simp: lookup_target_page_def)
    with rg show ?thesis by (intro exI[of _ "[GetPage page_id]"]) auto
  next
    case (Inl exc)
    with pid g assms have "lookup_by_binding_or_search st c note parent_id e2 = (r, e1)"
      by (simp add: lookup_target_page_def)
    from lookup_by_binding_or_search_reads[OF this] obtain new where
      n: "reads_only e2 e1 new"
      "\<forall>exc. r = Inl exc \<longrightarrow> new \<noteq> [] \<and> (\<exists>s t p. last new = FindPage s t p)" by blast
    from reads_only_trans[OF rg n(1)] n(2) show ?thesis
      by (intro exI[of _ "[GetPage page_id] @ new"]) auto
  qed
qed






lemma process_note_decided:
  assumes "\<not> fm_exclude (vn_frontmatter note)"
    "resolve_parent st c note dry_run m e = (Inr parent_id, m1, e1)"
    "lookup_target_page st c note parent_id e1 = (Inr (target_page, binding), e2)"
    "decide_note st c co now clock note link_index dry_run parent_id target_page e2 = (r, e3)"
  shows "process_note st c co now clock note link_index dry_run m e = (r, m1, e3)"
  unfolding process_note_def
  by (simp only: if_not_P[OF assms(1)] assms(2) assms(3) assms(4) prod.case sum.case)






lemma decide_note_unchanged:
  assumes "get_file (state e) (vn_relative_path note) = Some fr" "fr_sha256 fr = vn_sha256 note"
  shows "decide_note st c co now clock note link_index dry_run parent_id (Some page) e =
     (Inr (\<lparr>pe_note = note, pe_action = SKIP, pe_target_page_id = Some (rp_page_id page),
             pe_parent_page_id = parent_id, pe_reason = Some ''No changes detected'',
             pe_labels = fm_labels (vn_frontmatter note)\<rparr>, None), e)"
proof -
  have h: "has_conflict (Some fr) (get_page (state e) (rp_page_id page)) (Some page)
             (vn_sha256 note) = Inr False"
    using has_conflict_same_hash[of fr "get_page (state e) (rp_page_id page)" page] assms(2)
    by (simp only:)
  show ?thesis
    by (simp add: decide_note_def Let_def assms(1) h assms(2))
qed

text \<open>
  C7, amended: for every note that is not excluded, whose parent resolves, for which a
  target remote page resolves, and whose stored file record has the note's current
  content hash, the engine produces a plan entry with action SKIP and reason
  \<open>No changes detected\<close>, no conflict record, and after the resolution of the parent
  it performs no state write and only reads of the remote service.
\<close>

theorem unchanged_note_skipped:
  "\<not> fm_exclude (vn_frontmatter note7) \<and>
   resolve_parent st c note7 dry_run m e = (Inr parent_id, m1, e1) \<and>
   lookup_target_page st c note7 parent_id e1 = (Inr (Some page, binding), e2) \<and>
   get_file (state e2) (vn_relative_path note7) = Some fr \<and>
   fr_sha256 fr = vn_sha256 note7 \<longrightarrow>
     process_note st c co now clock note7 link_index dry_run m e =
       (Inr (\<lparr>pe_note = note7, pe_action = SKIP, pe_target_page_id = Some (rp_page_id page),
               pe_parent_page_id = parent_id, pe_reason = Some ''No changes detected'',
               pe_labels = fm_labels (vn_frontmatter note7)\<rparr>, None), m1, e2)
     \<and> state e2 = state e1
     \<and> (\<exists>new. remote_calls e2 = remote_calls e1 @ new \<and> (\<forall>call\<in>set new. is_remote_read call))"
proof
  assume a: "\<not> fm_exclude (vn_frontmatter note7) \<and>
   resolve_parent st c note7 dry_run m e = (Inr parent_id, m1, e1) \<and>
   lookup_target_page st c note7 parent_id e1 = (Inr (Some page, binding), e2) \<and>
   get_file (state e2) (vn_relative_path note7) = Some fr \<and>
   fr_sha256 fr = vn_sha256 note7"
  then have a1: "\<not> fm_exclude (vn_frontmatter note7)"
    and a2: "resolve_parent st c note7 dry_run m e = (Inr parent_id, m1, e1)"
    and a3: "lookup_target_page st c note7 parent_id e1 = (Inr (Some page, binding), e2)"
    and a4: "get_file (state e2) (vn_relative_path note7) = Some fr"
    and a5: "fr_sha256 fr = vn_sha256 note7"
    by blast+
  have p: "process_note st c co now clock note7 link_index dry_run m e =
       (Inr (\<lparr>pe_note = note7, pe_action = SKIP, pe_target_page_id = Some (rp_page_id page),
               pe_parent_page_id = parent_id, pe_reason = Some ''No changes detected'',
               pe_labels = fm_labels (vn_frontmatter note7)\<rparr>, None), m1, e2)"
    by (rule process_note_decided[OF a1 a2 a3 decide_note_unchanged[OF a4 a5]])
  from lookup_target_page_reads[OF a3] obtain new where "reads_only e1 e2 new" by blast
  then have s: "state e2 = state e1"
    and cs: "\<exists>new. remote_calls e2 = remote_calls e1 @ new \<and> (\<forall>call\<in>set new. is_remote_read call)"
    by (auto simp: reads_only_def list_all_iff)
  show "process_note st c co now clock note7 link_index dry_run m e =
       (Inr (\<lparr>pe_note = note7, pe_action = SKIP, pe_target_page_id = Some (rp_page_id page),
               pe_parent_page_id = parent_id, pe_reason = Some ''No changes detected'',
               pe_labels = fm_labels (vn_frontmatter note7)\<rparr>, None), m1, e2)
     \<and> state e2 = state e1
     \<and> (\<exists>new. remote_calls e2 = remote_calls e1 @ new \<and> (\<forall>call\<in>set new. is_remote_read call))"
    by (rule conjI[OF p conjI[OF s cs]])
qed

text \<open>
  C7, as stated, fails on two counts: the reason recorded in the plan entry is the text
  \<open>No changes detected\<close>, not \<open>unchanged\<close>; and in a real run the resolution of the
  parent, which comes first, writes to the state store (here the record of the root
  page, absent before).
\<close>

theorem skip_reason_counterexample:
  "fst (process_note example_settings example_remote example_collaborators (Aware 500 0)
          (Aware 501 0) guide_note (LinkIndex ''/vault'' [guide_note]) False new_manager synced_env)
   = Inr (\<lparr>pe_note = guide_note, pe_action = SKIP, pe_target_page_id = Some ''3'',
           pe_parent_page_id = Some ''2'', pe_reason = Some ''No changes detected'',
           pe_labels = [''docs'', ''example'']\<rparr>, None)
   \<and> Some ''No changes detected'' \<noteq> Some ''unchanged''
   \<and> get_page (state (snd (snd (process_note example_settings example_remote
          example_collaborators (Aware 500 0) (Aware 501 0) guide_note
          (LinkIndex ''/vault'' [guide_note]) False new_manager synced_env)))) ''1''
       \<noteq> get_page (state synced_env) ''1''"
  by code_simp

lemma ex_real:
  "fst (resolve_parent example_settings example_remote guide_note False new_manager synced_env)
     = Inr (Some ''2'')"
  "fst (lookup_target_page example_settings example_remote guide_note (Some ''2'')
          (snd (snd (resolve_parent example_settings example_remote guide_note False new_manager
                       synced_env))))
     = Inr (Some \<lparr>rp_page_id = ''3'', rp_title = ''Example Title'', rp_parent_page_id = Some ''2'',
                   rp_version = 4, rp_last_updated = Some (Aware 100 0)\<rparr>,
            Some \<lparr>br_file_path = ''Guides/Example.md'', br_page_id = ''3''\<rparr>)"
  "get_file (state (snd (lookup_target_page example_settings example_remote guide_note
          (Some ''2'')
          (snd (snd (resolve_parent example_settings example_remote guide_note False new_manager
                       synced_env)))))) (vn_relative_path guide_note)
     = Some \<lparr>fr_path = ''Guides/Example.md'', fr_sha256 = ''same'',
             fr_last_synced_at = Some (Naive 100)\<rparr>"
  "\<not> fm_exclude (vn_frontmatter guide_note)"
  "fr_sha256 \<lparr>fr_path = ''Guides/Example.md'', fr_sha256 = ''same'',
             fr_last_synced_at = Some (Naive 100)\<rparr> = vn_sha256 guide_note"
  by code_simp+

theorem unchanged_note_skipped_witness:
  "fst (process_note example_settings example_remote example_collaborators (Aware 500 0)
          (Aware 501 0) guide_note (LinkIndex ''/vault'' [guide_note]) False new_manager synced_env)
   = Inr (\<lparr>pe_note = guide_note, pe_action = SKIP, pe_target_page_id = Some ''3'',
           pe_parent_page_id = Some ''2'', pe_reason = Some ''No changes detected'',
           pe_labels = fm_labels (vn_frontmatter guide_note)\<rparr>, None)"
proof -
  let ?R = "resolve_parent example_settings example_remote guide_note False new_manager synced_env"
  let ?L = "lookup_target_page example_settings example_remote guide_note (Some ''2'')
              (snd (snd ?R))"
  let ?page = "\<lparr>rp_page_id = ''3'', rp_title = ''Example Title'', rp_parent_page_id = Some ''2'',
                   rp_version = 4, rp_last_updated = Some (Aware 100 0)\<rparr>"
  let ?b = "Some \<lparr>br_file_path = ''Guides/Example.md'', br_page_id = ''3''\<rparr>"
  let ?fr = "\<lparr>fr_path = ''Guides/Example.md'', fr_sha256 = ''same'',
             fr_last_synced_at = Some (Naive 100)\<rparr>"
  have r: "?R = (Inr (Some ''2''), fst (snd ?R), snd (snd ?R))"
    using ex_real(1) by (cases ?R) simp
  have l: "?L = (Inr (Some ?page, ?b), snd ?L)"
    using ex_real(2) by (cases ?L) simp
  from unchanged_note_skipped
    [where ?note7.0 = guide_note and st = example_settings and c = example_remote
       and dry_run = False and m = new_manager and e = synced_env
       and parent_id = "Some ''2''" and ?m1.0 = "fst (snd ?R)" and ?e1.0 = "snd (snd ?R)"
       and page = ?page and binding = ?b and ?e2.0 = "snd ?L" and fr = ?fr
       and co = example_collaborators and now = "Aware 500 0" and clock = "Aware 501 0"
       and link_index = "LinkIndex ''/vault'' [guide_note]"]
    ex_real(4) r l ex_real(3) ex_real(5)
  have "process_note example_settings example_remote example_collaborators (Aware 500 0)
          (Aware 501 0) guide_note (LinkIndex ''/vault'' [guide_note]) False new_manager synced_env
     = (Inr (\<lparr>pe_note = guide_note, pe_action = SKIP, pe_target_page_id = Some (rp_page_id ?page),
               pe_parent_page_id = Some ''2'', pe_reason = Some ''No changes detected'',
               pe_labels = fm_labels (vn_frontmatter guide_note)\<rparr>, None),
        fst (snd ?R), snd ?L)"
    by blast
  then show ?thesis by simp
qed

text \<open>
  A remark on the conflict check inside the engine. The page record read from the state
  store carries a naive timestamp, the page fetched from the remote service an aware one.
  For a note whose hash changed while the remote version did not, the conflict check
  reaches the timestamp comparison and raises \<open>TypeError\<close>: in the example, the note is
  neither updated nor reported as a conflict.
\<close>

lemma changed_note_timestamp_type_error:
  "fst (process_note example_settings example_remote example_collaborators (Aware 500 0)
          (Aware 501 0) (guide_note\<lparr>vn_sha256 := ''new''\<rparr>) (LinkIndex ''/vault'' [guide_note])
          False new_manager synced_env) = Inl TypeError"
  by code_simp

end
